theory Spec2Isabelle
  imports Main
begin

section \<open>Python exceptions\<close>

text \<open>
  The exceptions that the notebook's Python code can meet. \<open>External\<close> stands for any
  exception raised inside a library call (boto3, docker, os, bioinfokit), named by its
  class. \<open>Unmodelled\<close> marks an input whose treatment by Python is outside this
  development (format fields with attribute access, indexing, conversions or format
  specifications).
\<close>

datatype pyexn =
    ValueError
  | KeyError string
  | IndexError
  | TypeError
  | External string
  | Unmodelled

section \<open>The \<open>writetemplate\<close> cell magic\<close>

text \<open>
  \<^verbatim>\<open>
  @register_line_cell_magic
  def writetemplate(line, cell):
      with open(line, 'w+') as f:
          f.write(cell.format(**globals()))
  \<close>
  \<open>str.format\<close> scans the template from left to right. \<open>{{\<close> and \<open>}}\<close> stand for a
  literal brace, \<open>{name}\<close> is a replacement field, a lone \<open>}\<close> or an unclosed \<open>{\<close> raises
  \<open>ValueError\<close>. The call passes keyword arguments only, so a field whose name is empty
  or a number (a positional field) raises \<open>IndexError\<close>, and a name that is not a global
  raises \<open>KeyError\<close>. The globals are given as a map from a name to the text that
  \<open>format\<close> renders for its value.
\<close>

fun parse_field :: "string \<Rightarrow> pyexn + string \<times> string" where
  "parse_field [] = Inl ValueError"
| "parse_field (c # cs) =
     (if c = CHR ''}'' then Inr ([], cs)
      else if c = CHR ''{'' then Inl ValueError
      else if c = CHR ''['' \<or> c = CHR ''.'' \<or> c = CHR ''!'' \<or> c = CHR '':'' then Inl Unmodelled
      else (case parse_field cs of
              Inl e \<Rightarrow> Inl e
            | Inr (name, rest) \<Rightarrow> Inr (c # name, rest)))"

definition is_digit :: "char \<Rightarrow> bool" where
  "is_digit c \<longleftrightarrow> c \<in> set ''0123456789''"

definition get_field :: "string \<Rightarrow> (string \<rightharpoonup> string) \<Rightarrow> pyexn + string" where
  "get_field name g =
     (if list_all is_digit name then Inl IndexError
      else (case g name of None \<Rightarrow> Inl (KeyError name) | Some v \<Rightarrow> Inr v))"

lemma parse_field_shorter:
  "parse_field cs = Inr (name, rest) \<Longrightarrow> length rest < length cs"
  by (induction cs arbitrary: name rest) (auto split: if_splits sum.splits)

function format_str :: "string \<Rightarrow> (string \<rightharpoonup> string) \<Rightarrow> pyexn + string" where
  "format_str [] g = Inr []"
| "format_str (c # cs) g =
     (if c = CHR ''{'' then
        (case cs of
           [] \<Rightarrow> Inl ValueError
         | d # ds \<Rightarrow>
             if d = CHR ''{'' then
               (case format_str ds g of Inl e \<Rightarrow> Inl e | Inr s \<Rightarrow> Inr (CHR ''{'' # s))
             else
               (case parse_field cs of
                  Inl e \<Rightarrow> Inl e
                | Inr (name, rest) \<Rightarrow>
                    (case get_field name g of
                       Inl e \<Rightarrow> Inl e
                     | Inr v \<Rightarrow>
                         (case format_str rest g of Inl e \<Rightarrow> Inl e | Inr s \<Rightarrow> Inr (v @ s)))))
      else if c = CHR ''}'' then
        (case cs of
           [] \<Rightarrow> Inl ValueError
         | d # ds \<Rightarrow>
             if d = CHR ''}'' then
               (case format_str ds g of Inl e \<Rightarrow> Inl e | Inr s \<Rightarrow> Inr (CHR ''}'' # s))
             else Inl ValueError)
      else (case format_str cs g of Inl e \<Rightarrow> Inl e | Inr s \<Rightarrow> Inr (c # s)))"
  by pat_completeness auto
termination
  by (relation "measure (\<lambda>(s, g). length s)") (auto simp del: parse_field.simps dest!: parse_field_shorter)

text \<open>
  The local file system, as far as the magic touches it: the content of each file, and
  whether \<open>open(name, 'w+')\<close> succeeds on a name. Opening with \<open>'w+'\<close> creates the file
  or empties it; this happens before the template is formatted, so a template that fails
  to format leaves an empty file behind.
\<close>

record filesys =
  files :: "string \<rightharpoonup> string"
  can_open :: "string \<Rightarrow> bool"

definition writetemplate ::
  "string \<Rightarrow> string \<Rightarrow> (string \<rightharpoonup> string) \<Rightarrow> filesys \<Rightarrow> filesys \<times> (pyexn + unit)" where
  "writetemplate line cell g fs =
     (if \<not> can_open fs line then (fs, Inl (External ''OSError''))
      else
        (case format_str cell g of
           Inl e \<Rightarrow> (fs\<lparr>files := (files fs)(line \<mapsto> [])\<rparr>, Inl e)
         | Inr s \<Rightarrow> (fs\<lparr>files := (files fs)(line \<mapsto> s)\<rparr>, Inr ())))"

subsection \<open>The templates of the notebook\<close>


fun join_lines :: "string list \<Rightarrow> string" where
  "join_lines [] = []"
| "join_lines [l] = l"
| "join_lines (l # ls) = l @ CHR 0x0A # join_lines ls"

definition Dockerfile_lines :: "string list" where
  \<open>Dockerfile_lines =
    [''FROM ubuntu:18.04'',
     ''  '',
     ''# Install dependencies and apache web server'',
     ''RUN apt-get update && apt-get -y install apache2'',
     '''',
     ''# Create the index html'',
     ''RUN echo 'Hello World!' > /var/www/html/index.html'',
     '''',
     ''# Configure apache '',
     ''RUN echo '. /etc/apache2/envvars' > /root/run_apache.sh && '' @ [CHR 0x5C],
     '' echo 'mkdir -p /var/run/apache2' >> /root/run_apache.sh && '' @ [CHR 0x5C],
     '' echo 'mkdir -p /var/lock/apache2' >> /root/run_apache.sh && '' @ [CHR 0x5C],
     '' echo '/usr/sbin/apache2 -D FOREGROUND' >> /root/run_apache.sh && '' @ [CHR 0x5C],
     '' chmod 755 /root/run_apache.sh'',
     '''',
     ''EXPOSE 80'',
     '''',
     ''CMD /root/run_apache.sh'']\<close>

definition Dockerfile_cell :: string where
  "Dockerfile_cell = join_lines Dockerfile_lines"

definition sratest_sh_lines :: "string list" where
  \<open>sratest_sh_lines =
    [''#!/bin/bash'',
     ''set -x'',
     '''',
     ''## Prefetch accession'',
     ''prefetch $PACKAGE_NAME --output-directory /tmp'',
     '''',
     ''## Perform conversion using 8 threads (more will lead to I/O issues)'',
     ''fasterq-dump $PACKAGE_NAME -e 8'',
     '''',
     ''## Upload results to S3 bucket'',
     ''aws s3 sync . $SRA_OUTPUT/$PACKAGE_NAME'',
     ''    '']\<close>

definition sratest_sh_cell :: string where
  "sratest_sh_cell = join_lines sratest_sh_lines"

definition Dockerfile_ncbi_lines :: "string list" where
  \<open>Dockerfile_ncbi_lines =
    [''FROM ncbi/sra-tools'',
     '''',
     ''RUN apk add gcc alpine-sdk python3-dev python3 py3-pip && pip3 install awscli'',
     ''RUN export PATH=/usr/local/bin/aws/bin:$PATH'',
     ''ADD sratest.sh /usr/local/bin/sratest.sh'',
     ''RUN chmod +x /usr/local/bin/sratest.sh'',
     ''WORKDIR /tmp'',
     ''ENTRYPOINT ["/bin/sh","/usr/local/bin/sratest.sh"]'']\<close>

definition Dockerfile_ncbi_cell :: string where
  "Dockerfile_ncbi_cell = join_lines Dockerfile_ncbi_lines"

definition Dockerfile_myown_lines :: "string list" where
  \<open>Dockerfile_myown_lines =
    [''#FROM ubuntu:18.04  '',
     ''FROM public.ecr.aws/ubuntu/ubuntu:latest'',
     '''',
     ''RUN apt-get update '',
     ''RUN DEBIAN_FRONTEND="noninteractive" apt-get -y install tzdata '' @ [CHR 0x5C],
     ''        && apt-get install -y curl wget libxml-libxml-perl awscli uuid-runtime'',
     '''',
     ''### Known older version that is preconfigured'',
     ''#RUN wget -q https://ftp-trace.ncbi.nlm.nih.gov/sra/sdk/2.10.0/sratoolkit.2.10.0-ubuntu64.tar.gz -O /tmp/sratoolkit.tar.gz '' @ [CHR 0x5C],
     ''#        && tar zxf /tmp/sratoolkit.tar.gz -C /opt/ && rm /tmp/sratoolkit.tar.gz && ln -s /opt/sratoolkit.2.10.0-ubuntu64 /opt/sratoolkit'',
     '''',
     ''### Latest version requires workaround below'',
     ''RUN wget -q https://ftp-trace.ncbi.nlm.nih.gov/sra/sdk/current/sratoolkit.current-ubuntu64.tar.gz -O /tmp/sratoolkit.tar.gz '' @ [CHR 0x5C],
     ''        && tar zxf /tmp/sratoolkit.tar.gz -C /opt/ && rm /tmp/sratoolkit.tar.gz && '' @ [CHR 0x5C],
     ''        ln -s /opt/sratoolkit.$(curl -s https://ftp-trace.ncbi.nlm.nih.gov/sra/sdk/current/sratoolkit.current.version)-ubuntu64 /opt/sratoolkit'',
     ''    '',
     ''ENV PATH="/opt/sratoolkit/bin/:${{PATH}}"'',
     '''',
     ''ADD sratest.sh /usr/local/bin/sratest.sh'',
     ''RUN chmod +x /usr/local/bin/sratest.sh'',
     '''',
     ''### Workaround for vdb-config --interactive'',
     ''RUN mkdir /tmp/.ncbi && printf '/LIBS/GUID = "%s"'' @ [CHR 0x5C] @ ''n' `uuidgen` > /tmp/.ncbi/user-settings.mkfg'',
     '''',
     ''ENV HOME=/tmp'',
     ''WORKDIR /tmp'',
     '''',
     ''USER nobody'',
     ''ENTRYPOINT ["/usr/local/bin/sratest.sh"]'']\<close>

definition Dockerfile_myown_cell :: string where
  "Dockerfile_myown_cell = join_lines Dockerfile_myown_lines"


subsection \<open>Properties of \<open>format_str\<close>\<close>

definition plain :: "string \<Rightarrow> bool" where
  "plain s \<longleftrightarrow> list_all (\<lambda>c. c \<noteq> CHR ''{'' \<and> c \<noteq> CHR ''}'') s"

lemma format_str_Nil: "format_str [] g = Inr []"
  by simp

lemma format_str_char:
  "c \<noteq> CHR ''{'' \<Longrightarrow> c \<noteq> CHR ''}'' \<Longrightarrow>
   format_str (c # cs) g = (case format_str cs g of Inl e \<Rightarrow> Inl e | Inr s \<Rightarrow> Inr (c # s))"
  by simp

lemma format_str_lbrace2:
  "format_str (CHR ''{'' # CHR ''{'' # ds) g =
     (case format_str ds g of Inl e \<Rightarrow> Inl e | Inr s \<Rightarrow> Inr (CHR ''{'' # s))"
  by simp

lemma format_str_rbrace2:
  "format_str (CHR ''}'' # CHR ''}'' # ds) g =
     (case format_str ds g of Inl e \<Rightarrow> Inl e | Inr s \<Rightarrow> Inr (CHR ''}'' # s))"
  by simp

lemma format_str_field:
  "d \<noteq> CHR ''{'' \<Longrightarrow>
   format_str (CHR ''{'' # d # ds) g =
     (case parse_field (d # ds) of
        Inl e \<Rightarrow> Inl e
      | Inr (name, rest) \<Rightarrow>
          (case get_field name g of
             Inl e \<Rightarrow> Inl e
           | Inr v \<Rightarrow> (case format_str rest g of Inl e \<Rightarrow> Inl e | Inr s \<Rightarrow> Inr (v @ s))))"
  by (simp del: parse_field.simps)

lemma format_str_lbrace_end: "format_str [CHR ''{''] g = Inl ValueError"
  by simp

lemma format_str_rbrace_single:
  "(case cs of [] \<Rightarrow> True | d # ds \<Rightarrow> d \<noteq> CHR ''}'') \<Longrightarrow> format_str (CHR ''}'' # cs) g = Inl ValueError"
  by (cases cs) simp_all

declare format_str.simps [simp del]

lemmas format_str_simps =
  format_str_Nil format_str_char format_str_lbrace2 format_str_rbrace2 format_str_field
  format_str_lbrace_end

lemma format_str_plain: "plain s \<Longrightarrow> format_str s g = Inr s"
  by (induction s) (auto simp: plain_def format_str_Nil format_str_char)

lemma parse_field_append:
  "parse_field cs = Inr (name, r) \<Longrightarrow> parse_field (cs @ rest) = Inr (name, r @ rest)"
  by (induction cs arbitrary: name r) (auto split: if_splits sum.splits)

lemma format_str_append:
  "format_str pre g = Inr p \<Longrightarrow>
   format_str (pre @ rest) g = (case format_str rest g of Inl e \<Rightarrow> Inl e | Inr s \<Rightarrow> Inr (p @ s))"
proof (induction "length pre" arbitrary: pre p rule: less_induct)
  case less
  show ?case
  proof (cases pre)
    case Nil
    with less.prems show ?thesis by (simp add: format_str_Nil split: sum.splits)
  next
    case (Cons c cs)
    note pre = Cons
    consider (lb) "c = CHR ''{''" | (rb) "c = CHR ''}''" | (ch) "c \<noteq> CHR ''{''" "c \<noteq> CHR ''}''"
      by blast
    then show ?thesis
    proof cases
      case ch
      from less.prems pre ch obtain s where s: "format_str cs g = Inr s" and p: "p = c # s"
        by (auto simp: format_str_char split: sum.splits)
      have "format_str (cs @ rest) g = (case format_str rest g of Inl e \<Rightarrow> Inl e | Inr t \<Rightarrow> Inr (s @ t))"
        using less.hyps[of cs s] s pre by simp
      then show ?thesis using pre ch p
        by (simp add: format_str_char split: sum.splits)
    next
      case rb
      from less.prems pre rb obtain ds s where cs: "cs = CHR ''}'' # ds"
          and s: "format_str ds g = Inr s" and p: "p = CHR ''}'' # s"
        by (cases cs; cases "hd cs = CHR ''}''")
          (auto simp: format_str_rbrace2 format_str_rbrace_single split: sum.splits)
      have "format_str (ds @ rest) g = (case format_str rest g of Inl e \<Rightarrow> Inl e | Inr t \<Rightarrow> Inr (s @ t))"
        using less.hyps[of ds s] s pre cs by simp
      then show ?thesis using pre rb cs p
        by (simp add: format_str_rbrace2 split: sum.splits)
    next
      case lb
      from less.prems pre lb obtain d ds where cs: "cs = d # ds"
        by (cases cs) (auto simp: format_str_lbrace_end)
      show ?thesis
      proof (cases "d = CHR ''{''")
        case True
        from less.prems pre lb cs True obtain s where
          s: "format_str ds g = Inr s" and p: "p = CHR ''{'' # s"
          by (auto simp: format_str_lbrace2 split: sum.splits)
        have "format_str (ds @ rest) g = (case format_str rest g of Inl e \<Rightarrow> Inl e | Inr t \<Rightarrow> Inr (s @ t))"
          using less.hyps[of ds s] s pre cs by simp
        then show ?thesis using pre lb cs True p
          by (simp add: format_str_lbrace2 split: sum.splits)
      next
        case False
        from less.prems pre lb cs False obtain name r v s where
          pf: "parse_field (d # ds) = Inr (name, r)" and gf: "get_field name g = Inr v"
          and s: "format_str r g = Inr s" and p: "p = v @ s"
          by (auto simp: format_str_field simp del: parse_field.simps split: sum.splits)
        have len: "length r < length pre"
          using parse_field_shorter[OF pf] pre cs by simp
        have "format_str (r @ rest) g = (case format_str rest g of Inl e \<Rightarrow> Inl e | Inr t \<Rightarrow> Inr (s @ t))"
          using less.hyps[OF len s] .
        moreover have "parse_field (d # ds @ rest) = Inr (name, r @ rest)"
          using parse_field_append[OF pf, of rest] by simp
        ultimately show ?thesis using pre lb cs False p gf
          by (simp add: format_str_field del: parse_field.simps split: sum.splits)
      qed
    qed
  qed
qed


definition field_chars :: "string \<Rightarrow> bool" where
  "field_chars name \<longleftrightarrow> list_all (\<lambda>c. c \<notin> set ''{}[.!:'') name"

definition keyword_field :: "string \<Rightarrow> bool" where
  "keyword_field name \<longleftrightarrow> field_chars name \<and> \<not> list_all is_digit name"

lemma parse_field_name:
  "field_chars name \<Longrightarrow> parse_field (name @ CHR ''}'' # rest) = Inr (name, rest)"
  by (induction name) (auto simp: field_chars_def)

lemma format_str_placeholder:
  assumes "keyword_field name" and "g name = Some v"
  shows "format_str (CHR ''{'' # name @ CHR ''}'' # rest) g =
           (case format_str rest g of Inl e \<Rightarrow> Inl e | Inr s \<Rightarrow> Inr (v @ s))"
proof -
  from assms(1) obtain d ds where name: "name = d # ds" and d: "d \<noteq> CHR ''{''"
    by (cases name) (auto simp: keyword_field_def field_chars_def)
  have "parse_field (d # ds @ CHR ''}'' # rest) = Inr (name, rest)"
    using parse_field_name[of name rest] assms(1) name by (simp add: keyword_field_def)
  moreover have "get_field name g = Inr v"
    using assms by (simp add: get_field_def keyword_field_def)
  ultimately show ?thesis using name d
    by (simp add: format_str_field del: parse_field.simps)
qed

lemma format_str_join_lines:
  "list_all2 (\<lambda>l r. format_str l g = Inr r) ls rs \<Longrightarrow>
   format_str (join_lines ls) g = Inr (join_lines rs)"
proof (induction ls rs rule: list_all2_induct)
  case Nil
  show ?case by (simp add: format_str_Nil)
next
  case (Cons l ls r rs)
  show ?case
  proof (cases ls)
    case Nil
    with Cons show ?thesis by simp
  next
    case ls: (Cons l' ls')
    with Cons.hyps(2) obtain r' rs' where rs: "rs = r' # rs'"
      by (cases rs) auto
    have "format_str (CHR 0x0A # join_lines ls) g = Inr (CHR 0x0A # join_lines rs)"
      using Cons.IH by (simp add: format_str_char)
    then have "format_str (l @ CHR 0x0A # join_lines ls) g = Inr (r @ CHR 0x0A # join_lines rs)"
      using format_str_append[OF Cons.hyps(1), of "CHR 0x0A # join_lines ls"] by simp
    then show ?thesis using ls rs by simp
  qed
qed

definition unescape_PATH :: "string \<Rightarrow> string" where
  \<open>unescape_PATH l =
     (if l = ''ENV PATH="/opt/sratoolkit/bin/:${{PATH}}"''
      then ''ENV PATH="/opt/sratoolkit/bin/:${PATH}"'' else l)\<close>

lemma format_str_PATH_line:
  \<open>format_str ''ENV PATH="/opt/sratoolkit/bin/:${{PATH}}"'' g =
     Inr ''ENV PATH="/opt/sratoolkit/bin/:${PATH}"''\<close>
  by (simp add: format_str_simps)

lemma format_str_Dockerfile_myown:
  "format_str Dockerfile_myown_cell g = Inr (join_lines (map unescape_PATH Dockerfile_myown_lines))"
proof -
  have "list_all (\<lambda>l. format_str l g = Inr (unescape_PATH l)) Dockerfile_myown_lines"
    unfolding Dockerfile_myown_lines_def
    by (simp add: format_str_plain format_str_PATH_line unescape_PATH_def plain_def)
  then have "list_all2 (\<lambda>l r. format_str l g = Inr r) Dockerfile_myown_lines (map unescape_PATH Dockerfile_myown_lines)"
    by (simp add: list_all2_map2 list_all2_same list_all_iff)
  then show ?thesis
    unfolding Dockerfile_myown_cell_def by (rule format_str_join_lines)
qed

text \<open>
  Claim C9. \<open>writetemplate\<close> opens the file named on its line for writing, which discards
  what the file held, and writes the cell after \<open>str.format\<close> over the globals: a field
  \<open>{name}\<close> becomes the value of the global \<open>name\<close>, \<open>{{\<close> and \<open>}}\<close> become single
  braces, and the cell of \<open>Dockerfile.myown\<close> is written with \<open>${PATH}\<close> where the cell
  has \<open>${{PATH}}\<close>, every other line unchanged.
\<close>

theorem writetemplate_formats_cell:
  assumes "can_open fs line"
    and "format_str cell g = Inr s"
    and "format_str pre g = Inr p" and "format_str post g = Inr q"
    and "keyword_field name" and "g name = Some v"
  shows "writetemplate line cell g fs = (fs\<lparr>files := (files fs)(line \<mapsto> s)\<rparr>, Inr ())
       \<and> format_str (pre @ ''{'' @ name @ ''}'' @ post) g = Inr (p @ v @ q)
       \<and> format_str (pre @ ''{{'' @ post) g = Inr (p @ ''{'' @ q)
       \<and> format_str (pre @ ''}}'' @ post) g = Inr (p @ ''}'' @ q)
       \<and> writetemplate line Dockerfile_myown_cell g fs =
           (fs\<lparr>files := (files fs)(line \<mapsto> join_lines (map unescape_PATH Dockerfile_myown_lines))\<rparr>,
            Inr ())"
proof -
  have w: "writetemplate line cell g fs = (fs\<lparr>files := (files fs)(line \<mapsto> s)\<rparr>, Inr ())"
    using assms(1,2) by (simp add: writetemplate_def)
  have f: "format_str (pre @ ''{'' @ name @ ''}'' @ post) g = Inr (p @ v @ q)"
    using format_str_append[OF assms(3), of "''{'' @ name @ ''}'' @ post"]
      format_str_placeholder[of name g v post] assms(4,5,6)
    by simp
  have l: "format_str (pre @ ''{{'' @ post) g = Inr (p @ ''{'' @ q)"
    using format_str_append[OF assms(3), of "''{{'' @ post"] assms(4)
    by (simp add: format_str_lbrace2)
  have r: "format_str (pre @ ''}}'' @ post) g = Inr (p @ ''}'' @ q)"
    using format_str_append[OF assms(3), of "''}}'' @ post"] assms(4)
    by (simp add: format_str_rbrace2)
  have d: "writetemplate line Dockerfile_myown_cell g fs =
           (fs\<lparr>files := (files fs)(line \<mapsto> join_lines (map unescape_PATH Dockerfile_myown_lines))\<rparr>,
            Inr ())"
    using assms(1) by (simp add: writetemplate_def format_str_Dockerfile_myown)
  from w f l r d show ?thesis by blast
qed

theorem writetemplate_formats_cell_witness:
  "(let g = [''image'' \<mapsto> ''ubuntu''];
        fs = \<lparr>files = [''Dockerfile.myown'' \<mapsto> ''old''], can_open = (\<lambda>n. True)\<rparr>
    in can_open fs ''Dockerfile.myown''
     \<and> format_str ''FROM {image} ${{PATH}}'' g = Inr ''FROM ubuntu ${PATH}''
     \<and> format_str ''s3://'' g = Inr ''s3://''
     \<and> format_str ''/data'' g = Inr ''/data''
     \<and> keyword_field ''image'' \<and> g ''image'' = Some ''ubuntu''
     \<and> writetemplate ''Dockerfile.myown'' ''FROM {image} ${{PATH}}'' g fs =
           (fs\<lparr>files := (files fs)(''Dockerfile.myown'' \<mapsto> ''FROM ubuntu ${PATH}'')\<rparr>, Inr ())
     \<and> format_str (''s3://'' @ ''{'' @ ''image'' @ ''}'' @ ''/data'') g = Inr (''s3://'' @ ''ubuntu'' @ ''/data'')
     \<and> format_str (''s3://'' @ ''{{'' @ ''/data'') g = Inr (''s3://'' @ ''{'' @ ''/data'')
     \<and> format_str (''s3://'' @ ''}}'' @ ''/data'') g = Inr (''s3://'' @ ''}'' @ ''/data'')
     \<and> files (fst (writetemplate ''Dockerfile.myown'' Dockerfile_myown_cell g fs)) ''Dockerfile.myown'' =
           Some (join_lines (map unescape_PATH Dockerfile_myown_lines)))"
proof -
  let ?g = "[''image'' \<mapsto> ''ubuntu'']"
  let ?fs = "\<lparr>files = [''Dockerfile.myown'' \<mapsto> ''old''], can_open = (\<lambda>n. True)\<rparr>"
  have h1: "can_open ?fs ''Dockerfile.myown''" by simp
  have h2: "format_str ''FROM {image} ${{PATH}}'' ?g = Inr ''FROM ubuntu ${PATH}''"
    by (simp add: format_str_simps get_field_def is_digit_def)
  have h3: "format_str ''s3://'' ?g = Inr ''s3://''"
    by (simp add: format_str_simps)
  have h4: "format_str ''/data'' ?g = Inr ''/data''"
    by (simp add: format_str_simps)
  have h5: "keyword_field ''image''"
    by (simp add: keyword_field_def field_chars_def is_digit_def)
  have h6: "?g ''image'' = Some ''ubuntu''" by simp
  note c = writetemplate_formats_cell[OF h1 h2 h3 h4 h5 h6]
  from c have c4: "writetemplate ''Dockerfile.myown'' Dockerfile_myown_cell ?g ?fs =
     (?fs\<lparr>files := (files ?fs)(''Dockerfile.myown'' \<mapsto> join_lines (map unescape_PATH Dockerfile_myown_lines))\<rparr>,
      Inr ())"
    by blast
  have c5: "files (fst (writetemplate ''Dockerfile.myown'' Dockerfile_myown_cell ?g ?fs)) ''Dockerfile.myown'' =
           Some (join_lines (map unescape_PATH Dockerfile_myown_lines))"
    by (subst c4) simp
  show ?thesis
    unfolding Let_def using c c5 h1 h2 h3 h4 h5 h6 by blast
qed

section \<open>Shell command lines and scripts\<close>

text \<open>
  \<open>sratest.sh\<close> and the notebook's \<open>!\<close> lines are shell text. The fragment of the shell
  grammar they use is modelled: a script is a sequence of lines, a line is blank, a
  comment (first non-blank character \<open>#\<close>), or a list of simple commands joined by
  \<open>&&\<close>; a simple command is a list of words separated by blanks; a word is made of
  literal characters and parameter expansions \<open>$NAME\<close>. Text outside this fragment
  (quotes, pipes, redirections, substitutions, globs) is not parsed: the result is \<open>None\<close>.
\<close>

datatype seg = Lit string | Var string

type_synonym word = "seg list"

datatype command = Simple "word list" | AndIf command command

definition is_blank :: "char \<Rightarrow> bool" where
  "is_blank c \<longleftrightarrow> c = CHR '' '' \<or> c = CHR 0x09"

definition is_name_char :: "char \<Rightarrow> bool" where
  "is_name_char c \<longleftrightarrow>
     c \<in> set ''ABCDEFGHIJKLMNOPQRSTUVWXYZabcdefghijklmnopqrstuvwxyz0123456789_''"

definition is_plain_char :: "char \<Rightarrow> bool" where
  "is_plain_char c \<longleftrightarrow> is_name_char c \<or> c \<in> set ''-./:=+,@%''"

fun split_on :: "('a \<Rightarrow> bool) \<Rightarrow> 'a list \<Rightarrow> 'a list list" where
  "split_on p [] = [[]]"
| "split_on p (x # xs) =
     (if p x then [] # split_on p xs
      else (case split_on p xs of [] \<Rightarrow> [[x]] | f # fs \<Rightarrow> (x # f) # fs))"

definition split_fields :: "string \<Rightarrow> string list" where
  "split_fields s = filter (\<lambda>f. f \<noteq> []) (split_on (\<lambda>c. is_blank c \<or> c = CHR 0x0A) s)"

function parse_word :: "string \<Rightarrow> word option" where
  "parse_word [] = Some []"
| "parse_word (c # cs) =
     (if c = CHR ''$'' then
        (let name = takeWhile is_name_char cs in
         if name = [] \<or> is_digit (hd name) then None
         else map_option ((#) (Var name)) (parse_word (dropWhile is_name_char cs)))
      else if is_plain_char c then
        map_option ((#) (Lit (c # takeWhile is_plain_char cs)))
          (parse_word (dropWhile is_plain_char cs))
      else None)"
  by pat_completeness auto
termination
  by (relation "measure length") (auto simp: length_dropWhile_le less_Suc_eq_le)

fun those_all :: "'a option list \<Rightarrow> 'a list option" where
  "those_all [] = Some []"
| "those_all (None # xs) = None"
| "those_all (Some x # xs) = map_option ((#) x) (those_all xs)"

definition parse_simple :: "string list \<Rightarrow> command option" where
  "parse_simple toks =
     (if toks = [] then None else map_option Simple (those_all (map parse_word toks)))"

fun and_list :: "command \<Rightarrow> command option list \<Rightarrow> command option" where
  "and_list acc [] = Some acc"
| "and_list acc (None # cs) = None"
| "and_list acc (Some c # cs) = and_list (AndIf acc c) cs"

definition parse_command :: "string \<Rightarrow> command option" where
  "parse_command line =
     (case map parse_simple (split_on (\<lambda>t. t = ''&&'') (split_fields line)) of
        [] \<Rightarrow> None
      | None # cs \<Rightarrow> None
      | Some c # cs \<Rightarrow> and_list c cs)"

definition is_code_line :: "string \<Rightarrow> bool" where
  "is_code_line l \<longleftrightarrow>
     (case dropWhile is_blank l of [] \<Rightarrow> False | c # cs \<Rightarrow> c \<noteq> CHR ''#'')"

definition parse_script :: "string \<Rightarrow> command list option" where
  "parse_script text =
     those_all (map parse_command (filter is_code_line (split_on (\<lambda>c. c = CHR 0x0A) text)))"



subsection \<open>Execution\<close>

text \<open>
  A program started by the shell is a function of its argument vector and of the world
  it runs in (file systems, the network, S3, the Docker daemon), giving its exit status
  and the world it leaves. The shell state holds the environment, the options \<open>-e\<close> and
  \<open>-x\<close>, the status of the last command, whether \<open>-e\<close> has ended the script, and the
  argument vectors of the programs started so far.

  An unquoted expansion is split into fields at blanks and newlines, and an unset
  variable expands to nothing. \<open>set\<close> is the one builtin the sources use. With \<open>-e\<close>
  a failing simple command ends the script unless it stands left of a \<open>&&\<close>.
\<close>

type_synonym 'w tool = "string list \<Rightarrow> 'w \<Rightarrow> int \<times> 'w"

record 'w shell =
  env :: "string \<rightharpoonup> string"
  errexit :: bool
  xtrace :: bool
  status :: int
  exited :: bool
  launched :: "string list list"
  world :: 'w

definition init_shell :: "(string \<rightharpoonup> string) \<Rightarrow> 'w \<Rightarrow> 'w shell" where
  "init_shell e w =
     \<lparr>env = e, errexit = False, xtrace = False, status = 0, exited = False,
      launched = [], world = w\<rparr>"

definition seg_value :: "(string \<rightharpoonup> string) \<Rightarrow> seg \<Rightarrow> string" where
  "seg_value e s = (case s of Lit t \<Rightarrow> t | Var v \<Rightarrow> (case e v of None \<Rightarrow> [] | Some x \<Rightarrow> x))"

definition expand_word :: "(string \<rightharpoonup> string) \<Rightarrow> word \<Rightarrow> string list" where
  "expand_word e w = split_fields (concat (map (seg_value e) w))"

definition expand :: "(string \<rightharpoonup> string) \<Rightarrow> word list \<Rightarrow> string list" where
  "expand e ws = concat (map (expand_word e) ws)"

fun set_flags :: "bool \<Rightarrow> string \<Rightarrow> 'w shell \<Rightarrow> 'w shell" where
  "set_flags on [] sh = sh"
| "set_flags on (c # cs) sh =
     set_flags on cs
       (if c = CHR ''e'' then sh\<lparr>errexit := on\<rparr>
        else if c = CHR ''x'' then sh\<lparr>xtrace := on\<rparr>
        else sh)"

fun set_builtin :: "string list \<Rightarrow> 'w shell \<Rightarrow> 'w shell" where
  "set_builtin [] sh = sh\<lparr>status := 0\<rparr>"
| "set_builtin (a # as) sh =
     set_builtin as
       (case a of
          [] \<Rightarrow> sh
        | c # fl \<Rightarrow>
            if c = CHR ''-'' then set_flags True fl sh
            else if c = CHR ''+'' then set_flags False fl sh
            else sh)"

definition exec_simple :: "'w tool \<Rightarrow> string list \<Rightarrow> 'w shell \<Rightarrow> 'w shell" where
  "exec_simple t argv sh =
     (case argv of
        [] \<Rightarrow> sh\<lparr>status := 0\<rparr>
      | cmd # args \<Rightarrow>
          if cmd = ''set'' then set_builtin args sh
          else (case t argv (world sh) of
                  (st, w') \<Rightarrow> sh\<lparr>status := st, launched := launched sh @ [argv], world := w'\<rparr>))"

fun exec_cmd :: "'w tool \<Rightarrow> bool \<Rightarrow> command \<Rightarrow> 'w shell \<Rightarrow> 'w shell" where
  "exec_cmd t chk (Simple ws) sh =
     (let sh' = exec_simple t (expand (env sh) ws) sh
      in if chk \<and> errexit sh' \<and> status sh' \<noteq> 0 then sh'\<lparr>exited := True\<rparr> else sh')"
| "exec_cmd t chk (AndIf a b) sh =
     (let sh' = exec_cmd t False a sh
      in if exited sh' \<or> status sh' \<noteq> 0 then sh' else exec_cmd t chk b sh')"

fun exec_script :: "'w tool \<Rightarrow> command list \<Rightarrow> 'w shell \<Rightarrow> 'w shell" where
  "exec_script t [] sh = sh"
| "exec_script t (c # cs) sh =
     (let sh' = exec_cmd t True c sh in if exited sh' then sh' else exec_script t cs sh')"

definition run_script :: "'w tool \<Rightarrow> string \<Rightarrow> (string \<rightharpoonup> string) \<Rightarrow> 'w \<Rightarrow> 'w shell option" where
  "run_script t text e w = map_option (\<lambda>cs. exec_script t cs (init_shell e w)) (parse_script text)"

definition sratest_sh :: "command list" where
  "sratest_sh =
     [Simple [[Lit ''set''], [Lit ''-x'']],
      Simple [[Lit ''prefetch''], [Var ''PACKAGE_NAME''], [Lit ''--output-directory''], [Lit ''/tmp'']],
      Simple [[Lit ''fasterq-dump''], [Var ''PACKAGE_NAME''], [Lit ''-e''], [Lit ''8'']],
      Simple [[Lit ''aws''], [Lit ''s3''], [Lit ''sync''], [Lit ''.''],
              [Var ''SRA_OUTPUT'', Lit ''/'', Var ''PACKAGE_NAME'']]]"

lemma parse_sratest_sh: "parse_script sratest_sh_cell = Some sratest_sh"
  by code_simp

definition prefetch_argv :: "(string \<rightharpoonup> string) \<Rightarrow> string list" where
  "prefetch_argv e =
     expand e [[Lit ''prefetch''], [Var ''PACKAGE_NAME''], [Lit ''--output-directory''], [Lit ''/tmp'']]"

definition fasterq_argv :: "(string \<rightharpoonup> string) \<Rightarrow> string list" where
  "fasterq_argv e = expand e [[Lit ''fasterq-dump''], [Var ''PACKAGE_NAME''], [Lit ''-e''], [Lit ''8'']]"

definition sync_argv :: "(string \<rightharpoonup> string) \<Rightarrow> string list" where
  "sync_argv e =
     expand e [[Lit ''aws''], [Lit ''s3''], [Lit ''sync''], [Lit ''.''],
               [Var ''SRA_OUTPUT'', Lit ''/'', Var ''PACKAGE_NAME'']]"

lemma split_on_none: "list_all (\<lambda>c. \<not> p c) l \<Longrightarrow> split_on p l = [l]"
  by (induction l) auto

lemma split_fields_single:
  "l \<noteq> [] \<Longrightarrow> list_all (\<lambda>c. c \<noteq> CHR '' '' \<and> c \<noteq> CHR 0x09 \<and> c \<noteq> CHR 0x0A) l \<Longrightarrow>
   split_fields l = [l]"
  by (simp add: split_fields_def split_on_none is_blank_def)

lemma expand_lit:
  "l \<noteq> [] \<Longrightarrow> list_all (\<lambda>c. c \<noteq> CHR '' '' \<and> c \<noteq> CHR 0x09 \<and> c \<noteq> CHR 0x0A) l \<Longrightarrow>
   expand e ([Lit l] # ws) = l # expand e ws"
  by (simp add: expand_def expand_word_def seg_value_def split_fields_single)

lemma exec_cmd_tool:
  assumes "\<not> errexit sh" and "expand (env sh) ws = cmd # args" and "cmd \<noteq> ''set''"
  shows "exec_cmd t chk (Simple ws) sh =
           sh\<lparr>status := fst (t (cmd # args) (world sh)),
              launched := launched sh @ [cmd # args],
              world := snd (t (cmd # args) (world sh))\<rparr>"
  using assms by (simp add: exec_simple_def Let_def split: prod.splits)

lemma expand_Nil: "expand e [] = []"
  by (simp add: expand_def)

lemma exec_cmd_set_x:
  "exec_cmd t chk (Simple [[Lit ''set''], [Lit ''-x'']]) sh = sh\<lparr>xtrace := True, status := 0\<rparr>"
  by (simp add: exec_simple_def expand_lit expand_Nil Let_def)

lemma sratest_run:
  fixes t :: "'w tool"
  shows "exec_script t sratest_sh (init_shell e w) =
     (let r1 = t (prefetch_argv e) w;
          r2 = t (fasterq_argv e) (snd r1);
          r3 = t (sync_argv e) (snd r2)
      in \<lparr>env = e, errexit = False, xtrace = True, status = fst r3, exited = False,
          launched = [prefetch_argv e, fasterq_argv e, sync_argv e], world = snd r3\<rparr>)"
proof -
  let ?sh0 = "init_shell e w"
  let ?sh1 = "?sh0\<lparr>xtrace := True, status := 0\<rparr>"
  have s1: "exec_cmd t True (Simple [[Lit ''set''], [Lit ''-x'']]) ?sh0 = ?sh1"
    by (simp add: exec_cmd_set_x init_shell_def del: exec_cmd.simps)
  obtain args1 where a1: "prefetch_argv e = ''prefetch'' # args1"
    by (simp add: prefetch_argv_def expand_lit)
  obtain args2 where a2: "fasterq_argv e = ''fasterq-dump'' # args2"
    by (simp add: fasterq_argv_def expand_lit)
  obtain args3 where a3: "sync_argv e = ''aws'' # args3"
    by (simp add: sync_argv_def expand_lit)
  let ?r1 = "t (prefetch_argv e) w"
  let ?sh2 = "?sh1\<lparr>status := fst ?r1, launched := [prefetch_argv e], world := snd ?r1\<rparr>"
  have s2: "exec_cmd t True (Simple [[Lit ''prefetch''], [Var ''PACKAGE_NAME''], [Lit ''--output-directory''], [Lit ''/tmp'']]) ?sh1 = ?sh2"
    using exec_cmd_tool[of ?sh1 _ "''prefetch''" args1 t True] a1
    by (simp add: init_shell_def prefetch_argv_def del: exec_cmd.simps)
  let ?r2 = "t (fasterq_argv e) (snd ?r1)"
  let ?sh3 = "?sh2\<lparr>status := fst ?r2, launched := [prefetch_argv e, fasterq_argv e], world := snd ?r2\<rparr>"
  have s3: "exec_cmd t True (Simple [[Lit ''fasterq-dump''], [Var ''PACKAGE_NAME''], [Lit ''-e''], [Lit ''8'']]) ?sh2 = ?sh3"
    using exec_cmd_tool[of ?sh2 _ "''fasterq-dump''" args2 t True] a2
    by (simp add: init_shell_def fasterq_argv_def del: exec_cmd.simps)
  let ?r3 = "t (sync_argv e) (snd ?r2)"
  let ?sh4 = "?sh3\<lparr>status := fst ?r3, launched := [prefetch_argv e, fasterq_argv e, sync_argv e], world := snd ?r3\<rparr>"
  have s4: "exec_cmd t True (Simple [[Lit ''aws''], [Lit ''s3''], [Lit ''sync''], [Lit ''.''],
              [Var ''SRA_OUTPUT'', Lit ''/'', Var ''PACKAGE_NAME'']]) ?sh3 = ?sh4"
    using exec_cmd_tool[of ?sh3 _ "''aws''" args3 t True] a3
    by (simp add: init_shell_def sync_argv_def del: exec_cmd.simps)
  have x1: "\<not> exited ?sh1" "\<not> exited ?sh2" "\<not> exited ?sh3" "\<not> exited ?sh4"
    by (simp_all add: init_shell_def)
  have "exec_script t sratest_sh ?sh0 = ?sh4"
    unfolding sratest_sh_def exec_script.simps Let_def s1 s2 s3 s4 using x1 by simp
  then show ?thesis by (simp add: init_shell_def Let_def)
qed

text \<open>
  The script as the shell reads it once \<open>writetemplate\<close> has written it: the cell has no
  brace, so the file is the cell.
\<close>

lemma format_str_sratest_sh: "format_str sratest_sh_cell g = Inr sratest_sh_cell"
  unfolding sratest_sh_cell_def
  by (rule format_str_plain) (simp add: plain_def sratest_sh_lines_def)

definition nominal_env :: "string \<rightharpoonup> string" where
  "nominal_env =
     [''PACKAGE_NAME'' \<mapsto> ''SRR000002'',
      ''SRA_OUTPUT'' \<mapsto> ''s3://sagemaker-container-ws-1/data/sra-toolkit/fasterq'']"

lemma nominal_argv:
  "prefetch_argv nominal_env = [''prefetch'', ''SRR000002'', ''--output-directory'', ''/tmp'']"
  "fasterq_argv nominal_env = [''fasterq-dump'', ''SRR000002'', ''-e'', ''8'']"
  "sync_argv nominal_env =
     [''aws'', ''s3'', ''sync'', ''.'', ''s3://sagemaker-container-ws-1/data/sra-toolkit/fasterq/SRR000002'']"
  by code_simp+




section \<open>The ParallelCluster configuration\<close>

text \<open>
  \<open>config3-simple.yaml.ini\<close>, line by line, and the document it denotes. The reader
  below turns the lines into the list of the document's leaves, each with its path of
  keys and sequence positions; \<open>config3_simple_read\<close> shows that the lines and the
  document have the same leaves.
\<close>

definition config3_simple_lines :: "string list" where
  "config3_simple_lines =
    [''Region: ${REGION}'',
     ''Image:'',
     ''  Os: alinux2'',
     ''HeadNode:'',
     ''  InstanceType: c5.xlarge'',
     ''  Networking:'',
     ''    SubnetId: ${SUBNET_ID}'',
     ''  Ssh:'',
     ''    KeyName: ${KEY_NAME}'',
     ''  Iam:'',
     ''    S3Access:'',
     ''      - BucketName: ${BUCKET_NAME}'',
     ''        EnableWriteAccess: true'',
     ''    AdditionalIamPolicies: '',
     ''      - Policy: arn:aws:iam::aws:policy/SecretsManagerReadWrite'',
     ''  CustomActions:'',
     ''    OnNodeConfigured:'',
     ''      Script: ${POST_INSTALL_SCRIPT_LOCATION}'',
     ''      Args: '',
     ''        - ${POST_INSTALL_SCRIPT_ARGS_1}'',
     ''        - ${POST_INSTALL_SCRIPT_ARGS_2}'',
     ''        - ${POST_INSTALL_SCRIPT_ARGS_3}'',
     ''        - ${POST_INSTALL_SCRIPT_ARGS_4}'',
     ''        - ${POST_INSTALL_SCRIPT_ARGS_5}'',
     ''        - ${POST_INSTALL_SCRIPT_ARGS_6}'',
     ''        - ${POST_INSTALL_SCRIPT_ARGS_7}'',
     ''        - ${POST_INSTALL_SCRIPT_ARGS_8}'',
     ''Scheduling:'',
     ''  Scheduler: slurm'',
     ''  SlurmQueues:'',
     ''  - Name: q1'',
     ''    ComputeResources:'',
     ''    - Name: c5n2xlarge'',
     ''      InstanceType: c5n.2xlarge'',
     ''      MinCount: 0'',
     ''      MaxCount: 10'',
     ''    Networking:'',
     ''      SubnetIds:'',
     ''      - ${SUBNET_ID}'',
     ''    Iam:'',
     ''      S3Access:'',
     ''        - BucketName: ${BUCKET_NAME}'',
     ''          EnableWriteAccess: true'',
     ''SharedStorage:'',
     ''  - MountDir: /shared'',
     ''    Name: shared'',
     ''    StorageType: Ebs'',
     ''    EbsSettings:'',
     ''      VolumeType: gp2'',
     ''      Size: 50'']"

datatype yaml = Scalar string | Mapping "(string \<times> yaml) list" | Sequence "yaml list"

definition config3_simple :: yaml where
  "config3_simple = Mapping
    [(''Region'', Scalar ''${REGION}''),
     (''Image'', Mapping [(''Os'', Scalar ''alinux2'')]),
     (''HeadNode'', Mapping
       [(''InstanceType'', Scalar ''c5.xlarge''),
        (''Networking'', Mapping [(''SubnetId'', Scalar ''${SUBNET_ID}'')]),
        (''Ssh'', Mapping [(''KeyName'', Scalar ''${KEY_NAME}'')]),
        (''Iam'', Mapping
          [(''S3Access'', Sequence
             [Mapping [(''BucketName'', Scalar ''${BUCKET_NAME}''),
                       (''EnableWriteAccess'', Scalar ''true'')]]),
           (''AdditionalIamPolicies'', Sequence
             [Mapping [(''Policy'', Scalar ''arn:aws:iam::aws:policy/SecretsManagerReadWrite'')]])]),
        (''CustomActions'', Mapping
          [(''OnNodeConfigured'', Mapping
             [(''Script'', Scalar ''${POST_INSTALL_SCRIPT_LOCATION}''),
              (''Args'', Sequence
                [Scalar ''${POST_INSTALL_SCRIPT_ARGS_1}'',
                 Scalar ''${POST_INSTALL_SCRIPT_ARGS_2}'',
                 Scalar ''${POST_INSTALL_SCRIPT_ARGS_3}'',
                 Scalar ''${POST_INSTALL_SCRIPT_ARGS_4}'',
                 Scalar ''${POST_INSTALL_SCRIPT_ARGS_5}'',
                 Scalar ''${POST_INSTALL_SCRIPT_ARGS_6}'',
                 Scalar ''${POST_INSTALL_SCRIPT_ARGS_7}'',
                 Scalar ''${POST_INSTALL_SCRIPT_ARGS_8}''])])])]),
     (''Scheduling'', Mapping
       [(''Scheduler'', Scalar ''slurm''),
        (''SlurmQueues'', Sequence
          [Mapping
             [(''Name'', Scalar ''q1''),
              (''ComputeResources'', Sequence
                 [Mapping
                    [(''Name'', Scalar ''c5n2xlarge''),
                     (''InstanceType'', Scalar ''c5n.2xlarge''),
                     (''MinCount'', Scalar ''0''),
                     (''MaxCount'', Scalar ''10'')]]),
              (''Networking'', Mapping
                 [(''SubnetIds'', Sequence [Scalar ''${SUBNET_ID}''])]),
              (''Iam'', Mapping
                 [(''S3Access'', Sequence
                    [Mapping [(''BucketName'', Scalar ''${BUCKET_NAME}''),
                              (''EnableWriteAccess'', Scalar ''true'')]])])]])]),
     (''SharedStorage'', Sequence
       [Mapping
          [(''MountDir'', Scalar ''/shared''),
           (''Name'', Scalar ''shared''),
           (''StorageType'', Scalar ''Ebs''),
           (''EbsSettings'', Mapping
              [(''VolumeType'', Scalar ''gp2''), (''Size'', Scalar ''50'')])]])]"

subsection \<open>Reading the text\<close>

datatype step = Key string | Index nat

type_synonym path = "step list"

definition rstrip :: "string \<Rightarrow> string" where
  "rstrip s = rev (dropWhile (\<lambda>c. c = CHR '' '') (rev s))"

definition indent_of :: "string \<Rightarrow> nat" where
  "indent_of l = length (takeWhile (\<lambda>c. c = CHR '' '') l)"

definition content_of :: "string \<Rightarrow> string" where
  "content_of l = rstrip (dropWhile (\<lambda>c. c = CHR '' '') l)"

text \<open>\<open>key: value\<close> or \<open>key:\<close>; a line without \<open>: \<close> and not ending in \<open>:\<close> is a plain scalar.\<close>

fun split_entry :: "string \<Rightarrow> (string \<times> string) option" where
  "split_entry [] = None"
| "split_entry [c] = (if c = CHR '':'' then Some ([], []) else None)"
| "split_entry (c # d # cs) =
     (if c = CHR '':'' \<and> d = CHR '' '' then Some ([], dropWhile (\<lambda>c. c = CHR '' '') cs)
      else map_option (\<lambda>(k, v). (c # k, v)) (split_entry (d # cs)))"

text \<open>
  The context of a line: the open mapping keys and sequence items above it, innermost
  first, each with the column where it stands.
\<close>

datatype frame = KeyAt nat string | ItemAt nat nat

fun frame_col :: "frame \<Rightarrow> nat" where
  "frame_col (KeyAt n k) = n"
| "frame_col (ItemAt n i) = n"

fun frame_step :: "frame \<Rightarrow> step" where
  "frame_step (KeyAt n k) = Key k"
| "frame_step (ItemAt n i) = Index i"

definition path_of :: "frame list \<Rightarrow> path" where
  "path_of st = rev (map frame_step st)"

definition close_to :: "nat \<Rightarrow> frame list \<Rightarrow> frame list" where
  "close_to n st = dropWhile (\<lambda>f. n \<le> frame_col f) st"

text \<open>A dash at column \<open>n\<close> opens the next item of the sequence at that column.\<close>

definition open_item :: "nat \<Rightarrow> frame list \<Rightarrow> frame list" where
  "open_item n st =
     (case dropWhile (\<lambda>f. n < frame_col f) st of
        ItemAt m i # st' \<Rightarrow> if m = n then ItemAt n (Suc i) # st' else ItemAt n 0 # ItemAt m i # st'
      | st' \<Rightarrow> ItemAt n 0 # st')"

definition read_content :: "nat \<Rightarrow> string \<Rightarrow> frame list \<Rightarrow> frame list \<times> (path \<times> string) list" where
  "read_content n c st =
     (case split_entry c of
        None \<Rightarrow> (st, [(path_of st, c)])
      | Some (k, v) \<Rightarrow>
          if v = [] then (KeyAt n k # st, [])
          else (st, [(path_of (KeyAt n k # st), v)]))"

definition read_line :: "string \<Rightarrow> frame list \<Rightarrow> frame list \<times> (path \<times> string) list" where
  "read_line l st =
     (let n = indent_of l; c = content_of l in
      if c = [] then (st, [])
      else if take 2 c = ''- '' then
        (let m = n + 2 + indent_of (drop 2 c)
         in read_content m (content_of (drop 2 c)) (open_item n st))
      else read_content n c (close_to n st))"

fun read_lines :: "string list \<Rightarrow> frame list \<Rightarrow> (path \<times> string) list" where
  "read_lines [] st = []"
| "read_lines (l # ls) st = (case read_line l st of (st', out) \<Rightarrow> out @ read_lines ls st')"

fun leaves :: "path \<Rightarrow> yaml \<Rightarrow> (path \<times> string) list"
  and leaves_map :: "path \<Rightarrow> (string \<times> yaml) list \<Rightarrow> (path \<times> string) list"
  and leaves_seq :: "path \<Rightarrow> nat \<Rightarrow> yaml list \<Rightarrow> (path \<times> string) list" where
  "leaves p (Scalar s) = [(p, s)]"
| "leaves p (Mapping es) = leaves_map p es"
| "leaves p (Sequence xs) = leaves_seq p 0 xs"
| "leaves_map p [] = []"
| "leaves_map p (e # es) = leaves (p @ [Key (fst e)]) (snd e) @ leaves_map p es"
| "leaves_seq p i [] = []"
| "leaves_seq p i (x # xs) = leaves (p @ [Index i]) x @ leaves_seq p (Suc i) xs"


subsection \<open>Keys and values\<close>

definition top_level_keys :: "string list \<Rightarrow> string list" where
  "top_level_keys ls =
     List.map_filter
       (\<lambda>l. if indent_of l = 0 then map_option fst (split_entry (content_of l)) else None) ls"

text \<open>
  A value is a literal (letters, digits and \<open>_ . / : -\<close>) or one placeholder \<open>${NAME}\<close> and
  nothing else: no expression, operator, default, command substitution, tag, anchor or
  template directive. A key is a plain name.
\<close>

definition is_literal :: "string \<Rightarrow> bool" where
  "is_literal s \<longleftrightarrow> s \<noteq> [] \<and> list_all (\<lambda>c. is_name_char c \<or> c \<in> set ''./:-'') s"

definition is_placeholder :: "string \<Rightarrow> bool" where
  "is_placeholder s \<longleftrightarrow>
     take 2 s = ''${'' \<and> drop (length s - 1) s = ''}'' \<and> 3 < length s \<and>
     list_all is_name_char (take (length s - 3) (drop 2 s))"

fun declarative :: "yaml \<Rightarrow> bool"
  and declarative_map :: "(string \<times> yaml) list \<Rightarrow> bool"
  and declarative_seq :: "yaml list \<Rightarrow> bool" where
  "declarative (Scalar s) = (is_literal s \<or> is_placeholder s)"
| "declarative (Mapping es) = declarative_map es"
| "declarative (Sequence xs) = declarative_seq xs"
| "declarative_map [] = True"
| "declarative_map (e # es) =
     (fst e \<noteq> [] \<and> list_all is_name_char (fst e) \<and> declarative (snd e) \<and> declarative_map es)"
| "declarative_seq [] = True"
| "declarative_seq (x # xs) = (declarative x \<and> declarative_seq xs)"

subsection \<open>The compute fleet\<close>

fun lookup :: "string \<Rightarrow> yaml \<Rightarrow> yaml option" where
  "lookup k (Mapping es) = map_of es k"
| "lookup k y = None"

fun items :: "yaml option \<Rightarrow> yaml list" where
  "items (Some (Sequence xs)) = xs"
| "items y = []"

fun scalar :: "yaml option \<Rightarrow> string option" where
  "scalar (Some (Scalar s)) = Some s"
| "scalar y = None"

definition digit_val :: "char \<Rightarrow> nat" where
  "digit_val c = of_char c - 48"

definition nat_of_string :: "string \<Rightarrow> nat option" where
  "nat_of_string s =
     (if s \<noteq> [] \<and> list_all is_digit s then Some (foldl (\<lambda>n c. 10 * n + digit_val c) 0 s) else None)"

definition slurm_queues :: "yaml \<Rightarrow> yaml list" where
  "slurm_queues cfg =
     (case lookup ''Scheduling'' cfg of
        None \<Rightarrow> []
      | Some s \<Rightarrow> items (lookup ''SlurmQueues'' s))"

definition compute_resources :: "yaml \<Rightarrow> yaml list" where
  "compute_resources q = items (lookup ''ComputeResources'' q)"

definition count_of :: "string \<Rightarrow> yaml \<Rightarrow> nat option" where
  "count_of k cr = (case scalar (lookup k cr) of None \<Rightarrow> None | Some s \<Rightarrow> nat_of_string s)"

text \<open>
  The nodes of a compute resource number between its \<open>MinCount\<close> and its \<open>MaxCount\<close>;
  the fleet is the sum over the compute resources of all queues.
\<close>

fun sum_counts :: "string \<Rightarrow> yaml list \<Rightarrow> nat option" where
  "sum_counts k [] = Some 0"
| "sum_counts k (cr # crs) =
     (case (count_of k cr, sum_counts k crs) of
        (Some a, Some b) \<Rightarrow> Some (a + b)
      | _ \<Rightarrow> None)"

definition fleet_size_allowed :: "yaml \<Rightarrow> nat \<Rightarrow> bool" where
  "fleet_size_allowed cfg n =
     (let crs = concat (map compute_resources (slurm_queues cfg)) in
      case (sum_counts ''MinCount'' crs, sum_counts ''MaxCount'' crs) of
        (Some lo, Some hi) \<Rightarrow> lo \<le> n \<and> n \<le> hi
      | _ \<Rightarrow> False)"

lemma config3_simple_read: "read_lines config3_simple_lines [] = leaves [] config3_simple"
  by code_simp

lemma config3_simple_keys:
  "top_level_keys config3_simple_lines =
     [''Region'', ''Image'', ''HeadNode'', ''Scheduling'', ''SharedStorage'']"
  by code_simp

lemma config3_simple_declarative: "declarative config3_simple"
  by code_simp

text \<open>
  Claim C5. The keys at the left margin of the file are \<open>Region\<close>, \<open>Image\<close>,
  \<open>HeadNode\<close>, \<open>Scheduling\<close> and \<open>SharedStorage\<close>, in this order and no other. The
  document is declarative: every key is a plain name and every value is a literal or a
  single placeholder \<open>${NAME}\<close> that whoever instantiates the file fills in; nothing in
  it is a condition, a loop or an expression.
\<close>

theorem config3_simple_keys_no_logic:
  "top_level_keys config3_simple_lines =
     [''Region'', ''Image'', ''HeadNode'', ''Scheduling'', ''SharedStorage'']
   \<and> read_lines config3_simple_lines [] = leaves [] config3_simple
   \<and> declarative config3_simple"
  by (simp add: config3_simple_keys config3_simple_read config3_simple_declarative)

lemma config3_simple_fleet:
  "fleet_size_allowed config3_simple n \<longleftrightarrow> n \<le> 10"
  by (simp add: fleet_size_allowed_def slurm_queues_def compute_resources_def config3_simple_def
      count_of_def nat_of_string_def is_digit_def digit_val_def)

lemma config3_simple_queues:
  "slurm_queues config3_simple =
     [Mapping
        [(''Name'', Scalar ''q1''),
         (''ComputeResources'', Sequence
            [Mapping
               [(''Name'', Scalar ''c5n2xlarge''),
                (''InstanceType'', Scalar ''c5n.2xlarge''),
                (''MinCount'', Scalar ''0''),
                (''MaxCount'', Scalar ''10'')]]),
         (''Networking'', Mapping
            [(''SubnetIds'', Sequence [Scalar ''${SUBNET_ID}''])]),
         (''Iam'', Mapping
            [(''S3Access'', Sequence
               [Mapping [(''BucketName'', Scalar ''${BUCKET_NAME}''),
                         (''EnableWriteAccess'', Scalar ''true'')]])])]]"
  by (simp add: slurm_queues_def config3_simple_def)

text \<open>
  Claim C10. The configuration declares one Slurm queue, \<open>q1\<close>, with one compute
  resource of instance type \<open>c5n.2xlarge\<close>, \<open>MinCount\<close> 0 and \<open>MaxCount\<close> 10: a fleet of
  no node is allowed, and an allowed fleet has at most ten nodes.
\<close>

theorem config3_simple_one_queue_fleet_bounds:
  "leaves [] config3_simple = read_lines config3_simple_lines []
   \<and> map (\<lambda>q. scalar (lookup ''Name'' q)) (slurm_queues config3_simple) = [Some ''q1'']
   \<and> map (\<lambda>q. map (\<lambda>cr. (scalar (lookup ''InstanceType'' cr),
                            count_of ''MinCount'' cr, count_of ''MaxCount'' cr))
                   (compute_resources q))
        (slurm_queues config3_simple) = [[(Some ''c5n.2xlarge'', Some 0, Some 10)]]
   \<and> fleet_size_allowed config3_simple 0
   \<and> (\<forall>n. fleet_size_allowed config3_simple n \<longrightarrow> n \<le> 10)"
  by (simp add: config3_simple_read config3_simple_fleet config3_simple_queues
      compute_resources_def count_of_def nat_of_string_def is_digit_def digit_val_def)

theorem config3_simple_one_queue_fleet_bounds_witness:
  "fleet_size_allowed config3_simple 10 \<and> (10::nat) \<le> 10"
proof -
  have a: "fleet_size_allowed config3_simple 10"
    by (simp add: config3_simple_fleet)
  from config3_simple_one_queue_fleet_bounds have "fleet_size_allowed config3_simple 10 \<longrightarrow> (10::nat) \<le> 10"
    by blast
  with a show ?thesis by blast
qed

section \<open>The notebook\<close>

text \<open>
  The notebook's code cells, each a function on the Python variables that later cells
  read and on the world. Everything a cell does outside Python is a call into a
  library or a program started by a \<open>!\<close> line; what the library or the program answers
  is a parameter, so that a statement about a cell holds for every behaviour of Docker,
  S3 and the local system. The calls and programs are recorded in a trace.
\<close>

datatype libval =
    Unit
  | Str string
  | Bool bool
  | Strs "string list"
  | Keys "string list option"
  | Pairs "(string \<times> string) list"
  | Records "string list list" "pyexn option"

datatype pyval = PStr string | PInt int | PList "string list"

datatype event =
    Call string "string list" "pyexn option"
  | Run "string list"
  | Print "pyval list"

record 'o world =
  local_files :: filesys
  outside :: 'o

record 'o ext =
  tool :: "'o world tool"
  stdout_of :: "string list \<Rightarrow> 'o world \<Rightarrow> string list"
  lib :: "string \<Rightarrow> string list \<Rightarrow> 'o world \<Rightarrow> (pyexn + libval) \<times> 'o world"

record 'o nbstate =
  nb_trace :: "event list"
  nb_world :: "'o world"

record pyvars =
  bucket :: string
  c_id :: "string list"
  PACKAGE_NAME :: string
  sra_prefix :: string
  sra_output :: string
  access_key :: string
  secret_key :: string
  token :: string

type_synonym ('o, 'a) act = "'o nbstate \<Rightarrow> 'o nbstate \<times> (pyexn + 'a)"

type_synonym 'o cell = "pyvars \<Rightarrow> ('o, pyvars) act"

subsection \<open>Statements in sequence, exceptions, loops\<close>

definition ret :: "'a \<Rightarrow> ('o, 'a) act" where
  "ret a s = (s, Inr a)"

definition raise :: "pyexn \<Rightarrow> ('o, 'a) act" where
  "raise e s = (s, Inl e)"

definition bnd :: "('o, 'a) act \<Rightarrow> ('a \<Rightarrow> ('o, 'b) act) \<Rightarrow> ('o, 'b) act" where
  "bnd m f s = (case m s of (s', Inl e) \<Rightarrow> (s', Inl e) | (s', Inr a) \<Rightarrow> f a s')"

fun each :: "('a \<Rightarrow> ('o, unit) act) \<Rightarrow> 'a list \<Rightarrow> ('o, unit) act" where
  "each f [] = ret ()"
| "each f (a # as) = bnd (f a) (\<lambda>_. each f as)"

definition emit :: "event \<Rightarrow> ('o, unit) act" where
  "emit ev s = (s\<lparr>nb_trace := nb_trace s @ [ev]\<rparr>, Inr ())"

definition raised_by :: "pyexn + 'a \<Rightarrow> pyexn option" where
  "raised_by r = (case r of Inl e \<Rightarrow> Some e | Inr a \<Rightarrow> None)"

definition call :: "'o ext \<Rightarrow> string \<Rightarrow> string list \<Rightarrow> ('o, libval) act" where
  "call x name args s =
     (case lib x name args (nb_world s) of
        (r, w') \<Rightarrow> (s\<lparr>nb_trace := nb_trace s @ [Call name args (raised_by r)], nb_world := w'\<rparr>, r))"

text \<open>What Python's \<open>str\<close> and truth test make of a library's answer.\<close>

fun render :: "libval \<Rightarrow> string" where
  "render (Str s) = s"
| "render Unit = ''None''"
| "render (Bool b) = (if b then ''True'' else ''False'')"
| "render v = ''<object>''"

fun truthy :: "libval \<Rightarrow> bool" where
  "truthy Unit = False"
| "truthy (Str s) = (s \<noteq> [])"
| "truthy (Bool b) = b"
| "truthy (Strs l) = (l \<noteq> [])"
| "truthy (Keys k) = True"
| "truthy (Pairs l) = (l \<noteq> [])"
| "truthy (Records l e) = True"

subsection \<open>\<open>!\<close> lines and the cell magic\<close>

text \<open>
  IPython replaces \<open>$name\<close> in a \<open>!\<close> line by the text of the Python variable \<open>name\<close> and
  hands the line to the system shell; it does not look at the exit status. The
  variables the lines name are the string variables below. \<open>c_id = !cmd\<close> keeps the
  lines that the program printed.
\<close>

definition namespace :: "pyvars \<Rightarrow> (string \<rightharpoonup> string)" where
  "namespace v =
     [''bucket'' \<mapsto> bucket v, ''PACKAGE_NAME'' \<mapsto> PACKAGE_NAME v,
      ''sra_prefix'' \<mapsto> sra_prefix v, ''sra_output'' \<mapsto> sra_output v,
      ''access_key'' \<mapsto> access_key v, ''secret_key'' \<mapsto> secret_key v,
      ''token'' \<mapsto> token v]"

definition bang :: "'o ext \<Rightarrow> string \<Rightarrow> pyvars \<Rightarrow> ('o, unit) act" where
  "bang x line v s =
     (case parse_command line of
        None \<Rightarrow> (s, Inl Unmodelled)
      | Some c \<Rightarrow>
          (let sh = exec_cmd (tool x) True c (init_shell (namespace v) (nb_world s))
           in (s\<lparr>nb_trace := nb_trace s @ map Run (launched sh), nb_world := world sh\<rparr>, Inr ())))"

definition bang_output :: "'o ext \<Rightarrow> string \<Rightarrow> pyvars \<Rightarrow> ('o, string list) act" where
  "bang_output x line v s =
     (case parse_command line of
        Some (Simple ws) \<Rightarrow>
          (let argv = expand (namespace v) ws;
               sh = exec_cmd (tool x) True (Simple ws) (init_shell (namespace v) (nb_world s))
           in (s\<lparr>nb_trace := nb_trace s @ map Run (launched sh), nb_world := world sh\<rparr>,
               Inr (stdout_of x argv (nb_world s))))
      | _ \<Rightarrow> (s, Inl Unmodelled))"

definition magic_writetemplate :: "string \<Rightarrow> string \<Rightarrow> pyvars \<Rightarrow> ('o, unit) act" where
  "magic_writetemplate line cell v s =
     (let fs = local_files (nb_world s);
          opened = Call ''open'' [line, ''w+'']
                     (if can_open fs line then None else Some (External ''OSError''))
      in case writetemplate line cell (namespace v) fs of
           (fs', r) \<Rightarrow>
             (s\<lparr>nb_trace := nb_trace s @ [opened],
                nb_world := (nb_world s)\<lparr>local_files := fs'\<rparr>\<rparr>, r))"

subsection \<open>The cells\<close>

definition cell_imports :: "'o ext \<Rightarrow> 'o cell" where
  "cell_imports x v =
     bnd (each (\<lambda>m. bnd (call x ''import'' [m]) (\<lambda>_. ret ()))
            [''boto3'', ''botocore'', ''json'', ''time'', ''os'', ''base64'', ''docker'',
             ''pandas'', ''project_path'', ''lib.workshop'', ''botocore.exceptions'']) (\<lambda>_.
     ret v)"

definition cell_create_bucket :: "'o ext \<Rightarrow> 'o cell" where
  "cell_create_bucket x v =
     bnd (call x ''boto3.session.Session'' []) (\<lambda>_.
     bnd (call x ''session.region_name'' []) (\<lambda>region.
     bnd (call x ''workshop.create_bucket_name'' [''sagemaker-container-ws-'']) (\<lambda>bucket_name.
     bnd (call x ''workshop.create_bucket''
            [render region, ''session'', render bucket_name, ''False'']) (\<lambda>b.
     bnd (emit (Print [PStr (render b)])) (\<lambda>_.
     ret (v\<lparr>bucket := render b\<rparr>))))))"

definition cell_def_writetemplate :: "'o ext \<Rightarrow> 'o cell" where
  "cell_def_writetemplate x v =
     bnd (call x ''import'' [''IPython.core.magic'']) (\<lambda>_. ret v)"

definition cell_Dockerfile :: "'o ext \<Rightarrow> 'o cell" where
  "cell_Dockerfile x v = bnd (magic_writetemplate ''Dockerfile'' Dockerfile_cell v) (\<lambda>_. ret v)"

definition cell_build_simple_server :: "'o ext \<Rightarrow> 'o cell" where
  "cell_build_simple_server x v =
     bnd (bang x ''docker build -t simple_server .'' v) (\<lambda>_. ret v)"

definition cell_run_simple_server :: "'o ext \<Rightarrow> 'o cell" where
  "cell_run_simple_server x v =
     bnd (bang_output x ''docker run  -d -p 8080:80 simple_server'' v) (\<lambda>out.
     bnd (bang x '' sleep 3 && docker ps '' v) (\<lambda>_.
     bnd (bang x '' curl http://localhost:8080'' v) (\<lambda>_.
     ret (v\<lparr>c_id := out\<rparr>))))"

definition list_all_running_containers :: "'o ext \<Rightarrow> ('o, (string \<times> string) list) act" where
  "list_all_running_containers x =
     bnd (call x ''docker.from_env'' []) (\<lambda>_.
     bnd (call x ''docker_client.containers.list'' []) (\<lambda>container_list.
     (case container_list of
        Pairs cs \<Rightarrow>
          bnd (each (\<lambda>c. emit (Print [PStr (fst c), PStr (snd c)])) cs) (\<lambda>_. ret cs)
      | _ \<Rightarrow> raise TypeError)))"

definition cell_stop_container :: "'o ext \<Rightarrow> 'o cell" where
  "cell_stop_container x v =
     bnd (call x ''docker.from_env'' []) (\<lambda>_.
     bnd (list_all_running_containers x) (\<lambda>running_containers.
     bnd (emit (Print [PStr ''Stopping container... '', PList (c_id v)])) (\<lambda>_.
     (case c_id v of
        [] \<Rightarrow> raise IndexError
      | c # cs \<Rightarrow>
          bnd (call x ''docker_client.containers.get'' [c]) (\<lambda>_.
          bnd (call x ''simple_server_container.stop'' []) (\<lambda>_.
          ret v))))))"

definition cell_settings :: "'o ext \<Rightarrow> 'o cell" where
  "cell_settings x v =
     (let v1 = v\<lparr>PACKAGE_NAME := ''SRR000002'', sra_prefix := ''data/sra-toolkit/fasterq''\<rparr>;
          v2 = v1\<lparr>sra_output := ''s3://'' @ bucket v1 @ ''/'' @ sra_prefix v1\<rparr>
      in bnd (call x ''boto3.session.Session'' []) (\<lambda>_.
         bnd (call x ''session.get_credentials'' []) (\<lambda>_.
         bnd (call x ''credentials.get_frozen_credentials'' []) (\<lambda>current_credentials.
         (case current_credentials of
            Strs [a, k, t] \<Rightarrow> ret (v2\<lparr>access_key := a, secret_key := k, token := t\<rparr>)
          | _ \<Rightarrow> raise (External ''AttributeError''))))))"

definition cell_sratest_sh :: "'o ext \<Rightarrow> 'o cell" where
  "cell_sratest_sh x v = bnd (magic_writetemplate ''sratest.sh'' sratest_sh_cell v) (\<lambda>_. ret v)"

definition cell_Dockerfile_ncbi :: "'o ext \<Rightarrow> 'o cell" where
  "cell_Dockerfile_ncbi x v =
     bnd (magic_writetemplate ''Dockerfile.ncbi'' Dockerfile_ncbi_cell v) (\<lambda>_. ret v)"

definition cell_build_ncbi :: "'o ext \<Rightarrow> 'o cell" where
  "cell_build_ncbi x v =
     bnd (bang x ''docker build -t myncbi/sra-tools -f Dockerfile.ncbi .'' v) (\<lambda>_. ret v)"

definition run_ncbi_line :: string where
  "run_ncbi_line =
     ''docker run --env SRA_OUTPUT=$sra_output --env PACKAGE_NAME=$PACKAGE_NAME --env PACKAGE_NAME=$PACKAGE_NAME --env AWS_ACCESS_KEY_ID=$access_key '' @
     ''    --env AWS_SECRET_ACCESS_KEY=$secret_key --env AWS_SESSION_TOKEN=$token  myncbi/sra-tools:latest''"

definition cell_run_ncbi_2 :: "'o ext \<Rightarrow> 'o cell" where
  "cell_run_ncbi_2 x v =
     (let v' = v\<lparr>PACKAGE_NAME := ''SRR000002''\<rparr>
      in bnd (bang x run_ncbi_line v') (\<lambda>_. ret v'))"

definition cell_run_ncbi_3 :: "'o ext \<Rightarrow> 'o cell" where
  "cell_run_ncbi_3 x v =
     (let v' = v\<lparr>PACKAGE_NAME := ''SRR000003''\<rparr>
      in bnd (bang x run_ncbi_line v') (\<lambda>_. ret v'))"

definition cell_Dockerfile_myown :: "'o ext \<Rightarrow> 'o cell" where
  "cell_Dockerfile_myown x v =
     bnd (magic_writetemplate ''Dockerfile.myown'' Dockerfile_myown_cell v) (\<lambda>_. ret v)"

definition cell_build_myown :: "'o ext \<Rightarrow> 'o cell" where
  "cell_build_myown x v =
     bnd (bang x ''docker build -t myownncbi/sra-tools -f Dockerfile.myown .'' v) (\<lambda>_. ret v)"

definition run_myown_line :: string where
  "run_myown_line =
     ''docker run --env SRA_OUTPUT=$sra_output --env PACKAGE_NAME=$PACKAGE_NAME --env AWS_ACCESS_KEY_ID=$access_key '' @
     ''    --env AWS_SECRET_ACCESS_KEY=$secret_key --env AWS_SESSION_TOKEN=$token    myownncbi/sra-tools:latest''"

definition cell_run_myown :: "'o ext \<Rightarrow> 'o cell" where
  "cell_run_myown x v =
     (let v' = v\<lparr>PACKAGE_NAME := ''SRR000004''\<rparr>
      in bnd (bang x run_myown_line v') (\<lambda>_. ret v'))"

text \<open>\<open>os.path.dirname\<close> of a POSIX path.\<close>

definition dirname :: "string \<Rightarrow> string" where
  "dirname p =
     (let head = rev (dropWhile (\<lambda>c. c \<noteq> CHR ''/'') (rev p))
      in if head \<noteq> [] \<and> \<not> list_all (\<lambda>c. c = CHR ''/'') head
         then rev (dropWhile (\<lambda>c. c = CHR ''/'') (rev head))
         else head)"

definition download_one :: "'o ext \<Rightarrow> pyvars \<Rightarrow> string \<Rightarrow> ('o, unit) act" where
  "download_one x v fn =
     (let p = dirname fn
      in bnd (call x ''os.path.exists'' [p]) (\<lambda>found.
         bnd (if \<not> truthy found then bnd (call x ''os.makedirs'' [p]) (\<lambda>_. ret ()) else ret ()) (\<lambda>_.
         bnd (call x ''s3_client.download_file'' [bucket v, fn, fn]) (\<lambda>_.
         ret ()))))"

definition cell_download :: "'o ext \<Rightarrow> 'o cell" where
  "cell_download x v =
     bnd (call x ''session.client'' [''s3'']) (\<lambda>_.
     bnd (call x ''s3_client.list_objects'' [bucket v, sra_prefix v]) (\<lambda>objs.
     (case objs of
        Keys None \<Rightarrow> raise (KeyError ''Contents'')
      | Keys (Some contents) \<Rightarrow> bnd (each (download_one x v) contents) (\<lambda>_. ret v)
      | _ \<Rightarrow> raise TypeError)))"

definition cell_pip_install :: "'o ext \<Rightarrow> 'o cell" where
  "cell_pip_install x v = bnd (bang x ''pip install bioinfokit '' v) (\<lambda>_. ret v)"

function show_nat :: "nat \<Rightarrow> string" where
  "show_nat n =
     (if n < 10 then [char_of (48 + n)] else show_nat (n div 10) @ [char_of (48 + n mod 10)])"
  by pat_completeness auto
termination
  by (relation "measure id") auto

declare show_nat.simps [simp del]

fun fastq_loop :: "nat \<Rightarrow> string list list \<Rightarrow> ('o, nat) act" where
  "fastq_loop i [] = ret i"
| "fastq_loop i (record # records) =
     (case record of
        [header_1, sequence, header_2, qual] \<Rightarrow>
          (let sequence_len = length sequence;
               a_base = count_list sequence CHR ''A''
           in bnd (if i < 10
                   then emit (Print [PStr sequence, PStr qual, PInt (int a_base), PInt (int sequence_len)])
                   else ret ()) (\<lambda>_.
              fastq_loop (Suc i) records))
      | _ \<Rightarrow> raise ValueError)"

definition cell_fastq :: "'o ext \<Rightarrow> 'o cell" where
  "cell_fastq x v =
     bnd (call x ''import'' [''bioinfokit.analys.fastq'']) (\<lambda>_.
     bnd (call x ''fastq.fastq_reader''
            [sra_prefix v @ ''/'' @ PACKAGE_NAME v @ ''/'' @ PACKAGE_NAME v @ ''.fastq'']) (\<lambda>fastq_iter.
     (case fastq_iter of
        Records records failure \<Rightarrow>
          bnd (fastq_loop 0 records) (\<lambda>i.
          (case failure of
             Some e \<Rightarrow> raise e
           | None \<Rightarrow>
               bnd (emit (Print [PStr (''Total number of records for package '' @ PACKAGE_NAME v
                                       @ '' : '' @ show_nat i)])) (\<lambda>_.
               ret v)))
      | _ \<Rightarrow> raise TypeError)))"

definition cell_cleanup :: "'o ext \<Rightarrow> 'o cell" where
  "cell_cleanup x v =
     bnd (bang x ''aws s3 rb s3://$bucket --force  '' v) (\<lambda>_.
     bnd (bang x ''rm -rf $sra_prefix'' v) (\<lambda>_.
     ret v))"

definition cell_empty :: "'o ext \<Rightarrow> 'o cell" where
  "cell_empty x v = ret v"

definition notebook :: "'o ext \<Rightarrow> 'o cell list" where
  "notebook x =
     [cell_imports x, cell_create_bucket x, cell_def_writetemplate x, cell_Dockerfile x,
      cell_build_simple_server x, cell_run_simple_server x, cell_stop_container x,
      cell_settings x, cell_sratest_sh x, cell_Dockerfile_ncbi x, cell_build_ncbi x,
      cell_run_ncbi_2 x, cell_run_ncbi_3 x, cell_Dockerfile_myown x, cell_build_myown x,
      cell_run_myown x, cell_download x, cell_pip_install x, cell_fastq x, cell_cleanup x,
      cell_empty x]"

fun run_cells :: "'o cell list \<Rightarrow> 'o cell" where
  "run_cells [] v = ret v"
| "run_cells (c # cs) v = bnd (c v) (run_cells cs)"

definition events_of :: "('o, 'a) act \<Rightarrow> 'o nbstate \<Rightarrow> event list" where
  "events_of m s = drop (length (nb_trace s)) (nb_trace (fst (m s)))"

subsection \<open>What a cell adds to the trace\<close>

lemma events_of_ret [simp]: "events_of (ret a) s = []"
  by (simp add: events_of_def ret_def)

lemma events_of_raise [simp]: "events_of (raise e) s = []"
  by (simp add: events_of_def raise_def)

lemma events_of_emit [simp]: "events_of (emit ev) s = [ev]"
  by (simp add: events_of_def emit_def)

lemma events_of_call [simp]:
  "events_of (call x name args) s = [Call name args (raised_by (fst (lib x name args (nb_world s))))]"
  by (simp add: events_of_def call_def split: prod.splits)

text \<open>An action only appends to the trace.\<close>

definition extends :: "('o, 'a) act \<Rightarrow> bool" where
  "extends m \<longleftrightarrow> (\<forall>s. nb_trace (fst (m s)) = nb_trace s @ events_of m s)"

lemma extendsI: "(\<And>s. \<exists>evs. nb_trace (fst (m s)) = nb_trace s @ evs) \<Longrightarrow> extends m"
  unfolding extends_def events_of_def by (metis append_eq_conv_conj)

lemma extends_ret [intro!, simp]: "extends (ret a)"
  by (rule extendsI) (simp add: ret_def)

lemma extends_raise [intro!, simp]: "extends (raise e)"
  by (rule extendsI) (simp add: raise_def)

lemma extends_emit [intro!, simp]: "extends (emit ev)"
  by (rule extendsI) (simp add: emit_def)

lemma extends_call [intro!, simp]: "extends (call x name args)"
  by (rule extendsI) (simp add: call_def split: prod.splits)

lemma extends_bang [intro!, simp]: "extends (bang x line v)"
  by (rule extendsI) (simp add: bang_def Let_def split: option.splits)

lemma extends_bang_output [intro!, simp]: "extends (bang_output x line v)"
  by (rule extendsI) (simp add: bang_output_def Let_def split: option.splits command.splits)

lemma extends_magic [intro!, simp]: "extends (magic_writetemplate line cell v)"
  by (rule extendsI) (simp add: magic_writetemplate_def Let_def split: prod.splits)

lemma events_ofI: "nb_trace (fst (m s)) = nb_trace s @ evs \<Longrightarrow> events_of m s = evs"
  by (simp add: events_of_def)

lemma events_of_bnd:
  assumes "extends m" and "\<And>a. extends (f a)"
  shows "events_of (bnd m f) s =
           (case m s of
              (s', Inl e) \<Rightarrow> events_of m s
            | (s', Inr a) \<Rightarrow> events_of m s @ events_of (f a) s')"
proof (cases "m s")
  case (Pair s' r)
  have m: "nb_trace s' = nb_trace s @ events_of m s"
    using assms(1) Pair unfolding extends_def by (metis fst_conv)
  show ?thesis
  proof (cases r)
    case (Inl e)
    with Pair show ?thesis by (simp add: events_of_def bnd_def)
  next
    case (Inr a)
    have "nb_trace (fst (f a s')) = nb_trace s' @ events_of (f a) s'"
      using assms(2) unfolding extends_def by blast
    with m have "nb_trace (fst (f a s')) = nb_trace s @ (events_of m s @ events_of (f a) s')"
      by simp
    moreover have "bnd m f s = f a s'"
      using Pair Inr by (simp add: bnd_def)
    ultimately have "events_of (bnd m f) s = events_of m s @ events_of (f a) s'"
      by (intro events_ofI) simp
    with Pair Inr show ?thesis by simp
  qed
qed

lemma extends_bnd [intro!]:
  assumes "extends m" and "\<And>a. extends (f a)"
  shows "extends (bnd m f)"
proof (rule extendsI)
  fix s
  obtain s' r where ms: "m s = (s', r)" by (cases "m s")
  have m: "nb_trace s' = nb_trace s @ events_of m s"
    using assms(1) ms unfolding extends_def by (metis fst_conv)
  show "\<exists>evs. nb_trace (fst (bnd m f s)) = nb_trace s @ evs"
  proof (cases r)
    case (Inl e)
    with ms m show ?thesis by (simp add: bnd_def)
  next
    case (Inr a)
    have "nb_trace (fst (f a s')) = nb_trace s' @ events_of (f a) s'"
      using assms(2) unfolding extends_def by blast
    with ms m Inr show ?thesis by (simp add: bnd_def)
  qed
qed

lemma extends_each [intro!]:
  assumes "\<And>a. extends (f a)"
  shows "extends (each f as)"
  by (induction as) (auto intro: assms)

lemma extends_if [intro!]: "extends m \<Longrightarrow> extends n \<Longrightarrow> extends (if b then m else n)"
  by simp

text \<open>Every event that an action adds satisfies \<open>P\<close>.\<close>

definition emits :: "(event \<Rightarrow> bool) \<Rightarrow> ('o, 'a) act \<Rightarrow> bool" where
  "emits P m \<longleftrightarrow> extends m \<and> (\<forall>s. list_all P (events_of m s))"

lemma emits_ret [intro!, simp]: "emits P (ret a)"
  by (simp add: emits_def)

lemma emits_raise [intro!, simp]: "emits P (raise e)"
  by (simp add: emits_def)

lemma emits_emit [intro!]: "P ev \<Longrightarrow> emits P (emit ev)"
  by (simp add: emits_def)

lemma emits_call [intro!]: "(\<And>r. P (Call name args r)) \<Longrightarrow> emits P (call x name args)"
  by (simp add: emits_def)

lemma emits_bnd [intro!]:
  assumes "emits P m" and "\<And>a. emits P (f a)"
  shows "emits P (bnd m f)"
proof -
  have e: "extends m" "\<And>a. extends (f a)"
    using assms by (simp_all add: emits_def)
  have "list_all P (events_of (bnd m f) s)" for s
    using assms by (auto simp: events_of_bnd[OF e] emits_def split: prod.splits sum.splits)
  with e show ?thesis by (auto simp: emits_def)
qed

lemma emits_each [intro!]:
  assumes "\<And>a. emits P (f a)"
  shows "emits P (each f as)"
  by (induction as) (auto intro: assms)

lemma emits_if [intro!]: "emits P m \<Longrightarrow> emits P n \<Longrightarrow> emits P (if b then m else n)"
  by simp

lemma emits_magic [intro!]:
  "(\<And>r. P (Call ''open'' [line, ''w+''] r)) \<Longrightarrow> emits P (magic_writetemplate line cell v)"
  by (auto simp: emits_def events_of_def magic_writetemplate_def Let_def split: prod.splits)

subsection \<open>The programs a command line starts\<close>

fun simples :: "command \<Rightarrow> word list list" where
  "simples (Simple ws) = [ws]"
| "simples (AndIf a b) = simples a @ simples b"

lemma set_flags_same [simp]:
  "env (set_flags on fl sh) = env sh" "launched (set_flags on fl sh) = launched sh"
  "world (set_flags on fl sh) = world sh" "exited (set_flags on fl sh) = exited sh"
  by (induction fl arbitrary: sh) auto

lemma set_builtin_same [simp]:
  "env (set_builtin as sh) = env sh" "launched (set_builtin as sh) = launched sh"
  "world (set_builtin as sh) = world sh" "exited (set_builtin as sh) = exited sh"
  by (induction as arbitrary: sh) (auto split: list.splits)

definition started :: "string list \<Rightarrow> string list list" where
  "started argv = (case argv of [] \<Rightarrow> [] | cmd # args \<Rightarrow> if cmd = ''set'' then [] else [argv])"

lemma exec_simple_facts:
  "env (exec_simple t argv sh) = env sh"
  "launched (exec_simple t argv sh) = launched sh @ started argv"
  "exited (exec_simple t argv sh) = exited sh"
  by (auto simp: exec_simple_def started_def split: list.splits prod.splits)

lemma exec_simple_world:
  "world (exec_simple t argv sh) =
     (if started argv = [] then world sh else snd (t argv (world sh)))"
  by (auto simp: exec_simple_def started_def split: list.splits prod.splits)

lemma exec_cmd_env [simp]: "env (exec_cmd t chk c sh) = env sh"
  by (induction c arbitrary: chk sh) (auto simp: Let_def exec_simple_facts)

lemma exec_cmd_launched:
  "\<exists>new. launched (exec_cmd t chk c sh) = launched sh @ new
         \<and> set new \<subseteq> expand (env sh) ` set (simples c)"
proof (induction c arbitrary: chk sh)
  case (Simple ws)
  show ?case
    by (auto simp: Let_def exec_simple_facts started_def split: list.splits)
next
  case (AndIf a b)
  obtain n1 where n1: "launched (exec_cmd t False a sh) = launched sh @ n1"
    "set n1 \<subseteq> expand (env sh) ` set (simples a)"
    using AndIf.IH(1) by blast
  obtain n2 where n2:
    "launched (exec_cmd t chk b (exec_cmd t False a sh)) = launched (exec_cmd t False a sh) @ n2"
    "set n2 \<subseteq> expand (env sh) ` set (simples b)"
    using AndIf.IH(2)[of chk "exec_cmd t False a sh"] by auto
  show ?case
  proof (cases "exited (exec_cmd t False a sh) \<or> status (exec_cmd t False a sh) \<noteq> 0")
    case True
    then have "launched (exec_cmd t chk (AndIf a b) sh) = launched sh @ n1"
      using n1 by (simp add: Let_def)
    with n1 show ?thesis by auto
  next
    case False
    then have "launched (exec_cmd t chk (AndIf a b) sh) = launched sh @ (n1 @ n2)"
      using n1 n2 by (simp add: Let_def)
    moreover have "set (n1 @ n2) \<subseteq> expand (env sh) ` set (simples (AndIf a b))"
      using n1 n2 by auto
    ultimately show ?thesis by blast
  qed
qed

lemma emits_bang:
  assumes "parse_command line = Some c"
    and "\<And>ws. ws \<in> set (simples c) \<Longrightarrow> P (Run (expand (namespace v) ws))"
  shows "emits P (bang x line v)"
proof -
  have "list_all P (events_of (bang x line v) s)" for s
  proof -
    let ?sh = "exec_cmd (tool x) True c (init_shell (namespace v) (nb_world s))"
    obtain new where new: "launched ?sh = new" "set new \<subseteq> expand (namespace v) ` set (simples c)"
      using exec_cmd_launched[of "tool x" True c "init_shell (namespace v) (nb_world s)"]
      by (auto simp: init_shell_def)
    have "events_of (bang x line v) s = map Run new"
      using assms(1) new(1) by (simp add: events_of_def bang_def Let_def)
    moreover have "list_all P (map Run new)"
      using new(2) assms(2) by (auto simp: list_all_iff)
    ultimately show ?thesis by simp
  qed
  then show ?thesis by (simp add: emits_def)
qed

lemma emits_bang_output:
  assumes "parse_command line = Some (Simple ws)"
    and "P (Run (expand (namespace v) ws))"
  shows "emits P (bang_output x line v)"
proof -
  have "list_all P (events_of (bang_output x line v) s)" for s
    using assms
    by (auto simp: events_of_def bang_output_def Let_def exec_simple_facts started_def init_shell_def
        split: list.splits)
  then show ?thesis by (simp add: emits_def)
qed

text \<open>A line that is one simple command starts its program once, whatever it returns.\<close>

lemma started_program: "cmd \<noteq> ''set'' \<Longrightarrow> started (cmd # args) = [cmd # args]"
  by (simp add: started_def)

lemma bang_simple:
  assumes "parse_command line = Some (Simple ws)"
    and "expand (namespace v) ws = argv" and "started argv = [argv]"
  shows "bang x line v s =
           (s\<lparr>nb_trace := nb_trace s @ [Run argv], nb_world := snd (tool x argv (nb_world s))\<rparr>,
            Inr ())"
  using assms
  by (simp add: bang_def Let_def init_shell_def exec_simple_facts exec_simple_world)

lemma bang_output_simple:
  assumes "parse_command line = Some (Simple ws)"
    and "expand (namespace v) ws = argv" and "started argv = [argv]"
  shows "bang_output x line v s =
           (s\<lparr>nb_trace := nb_trace s @ [Run argv], nb_world := snd (tool x argv (nb_world s))\<rparr>,
            Inr (stdout_of x argv (nb_world s)))"
  using assms
  by (simp add: bang_output_def Let_def init_shell_def exec_simple_facts exec_simple_world)

lemma events_of_bang_simple:
  assumes "parse_command line = Some (Simple ws)"
    and "expand (namespace v) ws = argv" and "started argv = [argv]"
  shows "events_of (bnd (bang x line v) (\<lambda>_. ret v')) s = [Run argv]"
  using bang_simple[OF assms, of x s]
  by (simp add: events_of_def bnd_def ret_def)

subsection \<open>The notebook's command lines, parsed\<close>

lemma parse_build_simple_server:
  "parse_command ''docker build -t simple_server .'' =
     Some (Simple [[Lit ''docker''], [Lit ''build''], [Lit ''-t''], [Lit ''simple_server''], [Lit ''.'']])"
  by code_simp

lemma parse_run_simple_server:
  "parse_command ''docker run  -d -p 8080:80 simple_server'' =
     Some (Simple [[Lit ''docker''], [Lit ''run''], [Lit ''-d''], [Lit ''-p''], [Lit ''8080:80''],
                   [Lit ''simple_server'']])"
  by code_simp

lemma parse_sleep_ps:
  "parse_command '' sleep 3 && docker ps '' =
     Some (AndIf (Simple [[Lit ''sleep''], [Lit ''3'']]) (Simple [[Lit ''docker''], [Lit ''ps'']]))"
  by code_simp

lemma parse_curl:
  "parse_command '' curl http://localhost:8080'' =
     Some (Simple [[Lit ''curl''], [Lit ''http://localhost:8080'']])"
  by code_simp

lemma parse_build_ncbi:
  "parse_command ''docker build -t myncbi/sra-tools -f Dockerfile.ncbi .'' =
     Some (Simple [[Lit ''docker''], [Lit ''build''], [Lit ''-t''], [Lit ''myncbi/sra-tools''],
                   [Lit ''-f''], [Lit ''Dockerfile.ncbi''], [Lit ''.'']])"
  by code_simp

definition run_ncbi_words :: "word list" where
  "run_ncbi_words =
     [[Lit ''docker''], [Lit ''run''],
      [Lit ''--env''], [Lit ''SRA_OUTPUT='', Var ''sra_output''],
      [Lit ''--env''], [Lit ''PACKAGE_NAME='', Var ''PACKAGE_NAME''],
      [Lit ''--env''], [Lit ''PACKAGE_NAME='', Var ''PACKAGE_NAME''],
      [Lit ''--env''], [Lit ''AWS_ACCESS_KEY_ID='', Var ''access_key''],
      [Lit ''--env''], [Lit ''AWS_SECRET_ACCESS_KEY='', Var ''secret_key''],
      [Lit ''--env''], [Lit ''AWS_SESSION_TOKEN='', Var ''token''],
      [Lit ''myncbi/sra-tools:latest'']]"

lemma parse_run_ncbi: "parse_command run_ncbi_line = Some (Simple run_ncbi_words)"
  by code_simp

lemma parse_build_myown:
  "parse_command ''docker build -t myownncbi/sra-tools -f Dockerfile.myown .'' =
     Some (Simple [[Lit ''docker''], [Lit ''build''], [Lit ''-t''], [Lit ''myownncbi/sra-tools''],
                   [Lit ''-f''], [Lit ''Dockerfile.myown''], [Lit ''.'']])"
  by code_simp

definition run_myown_words :: "word list" where
  "run_myown_words =
     [[Lit ''docker''], [Lit ''run''],
      [Lit ''--env''], [Lit ''SRA_OUTPUT='', Var ''sra_output''],
      [Lit ''--env''], [Lit ''PACKAGE_NAME='', Var ''PACKAGE_NAME''],
      [Lit ''--env''], [Lit ''AWS_ACCESS_KEY_ID='', Var ''access_key''],
      [Lit ''--env''], [Lit ''AWS_SECRET_ACCESS_KEY='', Var ''secret_key''],
      [Lit ''--env''], [Lit ''AWS_SESSION_TOKEN='', Var ''token''],
      [Lit ''myownncbi/sra-tools:latest'']]"

lemma parse_run_myown: "parse_command run_myown_line = Some (Simple run_myown_words)"
  by code_simp

lemma parse_pip_install:
  "parse_command ''pip install bioinfokit '' =
     Some (Simple [[Lit ''pip''], [Lit ''install''], [Lit ''bioinfokit'']])"
  by code_simp

lemma parse_s3_rb:
  "parse_command ''aws s3 rb s3://$bucket --force  '' =
     Some (Simple [[Lit ''aws''], [Lit ''s3''], [Lit ''rb''], [Lit ''s3://'', Var ''bucket''],
                   [Lit ''--force'']])"
  by code_simp

lemma parse_rm:
  "parse_command ''rm -rf $sra_prefix'' =
     Some (Simple [[Lit ''rm''], [Lit ''-rf''], [Var ''sra_prefix'']])"
  by code_simp

lemmas simple_lines =
  parse_build_simple_server parse_run_simple_server parse_curl parse_build_ncbi
  parse_run_ncbi parse_build_myown parse_run_myown parse_pip_install parse_s3_rb parse_rm

subsection \<open>S3 operations\<close>

text \<open>
  Modelled from the spec: \<open>workshop.create_bucket\<close> is defined in \<open>lib/workshop.py\<close>, which
  is not among the sources; the spec lists S3 bucket creation among the operations, and
  this call is where the notebook asks for it.
\<close>

definition creates_bucket :: "string \<Rightarrow> bool" where
  "creates_bucket name \<longleftrightarrow> name = ''workshop.create_bucket''"

text \<open>
  The S3 operation that an event asks for, if any: bucket creation, a method of the
  boto3 S3 client, or a subcommand of \<open>aws s3\<close>.
\<close>

definition s3_operation :: "event \<Rightarrow> string option" where
  "s3_operation ev =
     (case ev of
        Call name args r \<Rightarrow>
          if creates_bucket name then Some ''create_bucket''
          else if take 10 name = ''s3_client.'' then Some (drop 10 name)
          else None
      | Run argv \<Rightarrow>
          if take 2 argv = [''aws'', ''s3'']
          then (case drop 2 argv of [] \<Rightarrow> None | op # rest \<Rightarrow> Some op)
          else None
      | Print vs \<Rightarrow> None)"

definition notebook_s3 :: "event \<Rightarrow> bool" where
  "notebook_s3 ev \<longleftrightarrow>
     s3_operation ev \<in>
       {None, Some ''create_bucket'', Some ''list_objects'', Some ''download_file'', Some ''rb''}"

lemma notebook_s3_simps:
  "notebook_s3 (Print vs)"
  "name \<noteq> ''workshop.create_bucket'' \<Longrightarrow> take 10 name \<noteq> ''s3_client.'' \<Longrightarrow> notebook_s3 (Call name args r)"
  "notebook_s3 (Call ''workshop.create_bucket'' args r)"
  "notebook_s3 (Call ''s3_client.list_objects'' args r)"
  "notebook_s3 (Call ''s3_client.download_file'' args r)"
  "cmd \<noteq> ''aws'' \<Longrightarrow> notebook_s3 (Run (cmd # rest))"
  "notebook_s3 (Run (''aws'' # ''s3'' # ''rb'' # rest))"
  by (simp_all add: notebook_s3_def s3_operation_def creates_bucket_def)

lemma s3_bang:
  assumes "parse_command line = Some c"
    and "list_all (\<lambda>ws. \<exists>l rest. ws = [Lit l] # rest \<and> l \<noteq> [] \<and> l \<noteq> ''aws''
            \<and> list_all (\<lambda>c. c \<noteq> CHR '' '' \<and> c \<noteq> CHR 0x09 \<and> c \<noteq> CHR 0x0A) l) (simples c)"
  shows "emits notebook_s3 (bang x line v)"
proof (rule emits_bang[OF assms(1)])
  fix ws assume "ws \<in> set (simples c)"
  with assms(2) obtain l rest where "ws = [Lit l] # rest" "l \<noteq> []" "l \<noteq> ''aws''"
    "list_all (\<lambda>c. c \<noteq> CHR '' '' \<and> c \<noteq> CHR 0x09 \<and> c \<noteq> CHR 0x0A) l"
    by (auto simp: list_all_iff)
  then show "notebook_s3 (Run (expand (namespace v) ws))"
    by (simp add: expand_lit notebook_s3_simps)
qed

lemma s3_cells_bang:
  "emits notebook_s3 (cell_build_simple_server x v)"
  "emits notebook_s3 (cell_build_ncbi x v)"
  "emits notebook_s3 (cell_run_ncbi_2 x v)"
  "emits notebook_s3 (cell_run_ncbi_3 x v)"
  "emits notebook_s3 (cell_build_myown x v)"
  "emits notebook_s3 (cell_run_myown x v)"
  "emits notebook_s3 (cell_pip_install x v)"
  unfolding cell_build_simple_server_def cell_build_ncbi_def cell_run_ncbi_2_def cell_run_ncbi_3_def
    cell_build_myown_def cell_run_myown_def cell_pip_install_def Let_def
  by (intro emits_bnd emits_ret s3_bang[OF parse_build_simple_server] s3_bang[OF parse_build_ncbi]
      s3_bang[OF parse_run_ncbi] s3_bang[OF parse_build_myown] s3_bang[OF parse_run_myown]
      s3_bang[OF parse_pip_install], simp add: run_ncbi_words_def run_myown_words_def)+

lemma s3_cell_run_simple_server: "emits notebook_s3 (cell_run_simple_server x v)"
  unfolding cell_run_simple_server_def
  by (intro emits_bnd emits_ret emits_bang_output[OF parse_run_simple_server]
      s3_bang[OF parse_sleep_ps] s3_bang[OF parse_curl])
    (simp_all add: expand_lit notebook_s3_simps)

lemma s3_cell_cleanup: "emits notebook_s3 (cell_cleanup x v)"
  unfolding cell_cleanup_def
  by (intro emits_bnd emits_ret emits_bang[OF parse_s3_rb] s3_bang[OF parse_rm])
    (simp_all add: expand_lit notebook_s3_simps)

subsection \<open>A sample run\<close>

definition demo_lib :: "bool \<Rightarrow> string \<Rightarrow> string list \<Rightarrow> unit world \<Rightarrow> (pyexn + libval) \<times> unit world" where
  "demo_lib found name args w =
     (if name = ''workshop.create_bucket_name'' then Inr (Str ''sagemaker-container-ws-1'')
      else if name = ''workshop.create_bucket'' then Inr (Str ''sagemaker-container-ws-1'')
      else if name = ''s3_client.list_objects''
        then Inr (Keys (Some [''data/sra-toolkit/fasterq/SRR000004/SRR000004.fastq'']))
      else if name = ''os.path.exists'' then Inr (Bool found)
      else if name = ''docker_client.containers.list'' then Inr (Pairs [(''4f1d'', ''running'')])
      else if name = ''credentials.get_frozen_credentials''
        then Inr (Strs [''AKIAEXAMPLE'', ''secret'', ''token''])
      else if name = ''fastq.fastq_reader''
        then Inr (Records [[''@r1'', ''GATTACA'', ''+'', ''IIIIIII'']] None)
      else Inr Unit,
      w)"

definition demo_tool :: "int \<Rightarrow> string list \<Rightarrow> unit world \<Rightarrow> int \<times> unit world" where
  "demo_tool sleep_status argv w = (if take 1 argv = [''sleep''] then sleep_status else 0, w)"

definition demo_ext :: "bool \<Rightarrow> int \<Rightarrow> unit ext" where
  "demo_ext found sleep_status =
     \<lparr>tool = demo_tool sleep_status,
      stdout_of = (\<lambda>argv w. if take 2 argv = [''docker'', ''run''] then [''4f1d''] else []),
      lib = demo_lib found\<rparr>"

definition demo_vars :: pyvars where
  "demo_vars =
     \<lparr>bucket = ''sagemaker-container-ws-1'', c_id = [''4f1d''], PACKAGE_NAME = ''SRR000004'',
      sra_prefix = ''data/sra-toolkit/fasterq'',
      sra_output = ''s3://sagemaker-container-ws-1/data/sra-toolkit/fasterq'',
      access_key = ''AKIAEXAMPLE'', secret_key = ''secret'', token = ''token''\<rparr>"

definition demo_state :: "unit nbstate" where
  "demo_state =
     \<lparr>nb_trace = [],
      nb_world = \<lparr>local_files = \<lparr>files = Map.empty, can_open = (\<lambda>name. True)\<rparr>, outside = ()\<rparr>\<rparr>"


lemma demo_download:
  "events_of (cell_download (demo_ext False 0) demo_vars) demo_state =
     [Call ''session.client'' [''s3''] None,
      Call ''s3_client.list_objects'' [''sagemaker-container-ws-1'', ''data/sra-toolkit/fasterq''] None,
      Call ''os.path.exists'' [''data/sra-toolkit/fasterq/SRR000004''] None,
      Call ''os.makedirs'' [''data/sra-toolkit/fasterq/SRR000004''] None,
      Call ''s3_client.download_file''
        [''sagemaker-container-ws-1'', ''data/sra-toolkit/fasterq/SRR000004/SRR000004.fastq'',
         ''data/sra-toolkit/fasterq/SRR000004/SRR000004.fastq''] None]"
  by code_simp

subsection \<open>Docker command lines\<close>

text \<open>
  The tag that \<open>docker build\<close> gives the image (\<open>-t\<close>), and the image that \<open>docker run\<close>
  starts, with whether it is started detached (\<open>-d\<close>). The options are those the notebook
  uses and their long forms; \<open>--env\<close>, \<open>-p\<close> and \<open>-f\<close> take a value.
\<close>

fun build_tag_args :: "string list \<Rightarrow> string option" where
  "build_tag_args [] = None"
| "build_tag_args (a # as) =
     (if a = ''-t'' \<or> a = ''--tag'' then (case as of [] \<Rightarrow> None | t # rest \<Rightarrow> Some t)
      else if a = ''-f'' \<or> a = ''--file''
        then (case as of [] \<Rightarrow> None | f # rest \<Rightarrow> build_tag_args rest)
      else build_tag_args as)"

definition build_tag :: "string list \<Rightarrow> string option" where
  "build_tag argv =
     (if take 2 argv = [''docker'', ''build''] then build_tag_args (drop 2 argv) else None)"

fun docker_run_args :: "bool \<Rightarrow> string list \<Rightarrow> (bool \<times> string) option" where
  "docker_run_args d [] = None"
| "docker_run_args d (a # as) =
     (if a = ''-d'' \<or> a = ''--detach'' then docker_run_args True as
      else if a = ''--env'' \<or> a = ''-e'' \<or> a = ''-p'' \<or> a = ''--publish''
        then (case as of [] \<Rightarrow> None | val # rest \<Rightarrow> docker_run_args d rest)
      else if take 1 a = ''-'' then None
      else Some (d, a))"

definition docker_run :: "string list \<Rightarrow> (bool \<times> string) option" where
  "docker_run argv =
     (if take 2 argv = [''docker'', ''run''] then docker_run_args False (drop 2 argv) else None)"

text \<open>
  An image name without a tag or digest in its last component means the tag \<open>latest\<close>.
\<close>

definition image_ref :: "string \<Rightarrow> string" where
  "image_ref name =
     (let last_component = rev (takeWhile (\<lambda>c. c \<noteq> CHR ''/'') (rev name))
      in if CHR '':'' \<in> set last_component \<or> CHR ''@'' \<in> set last_component then name
         else name @ '':latest'')"

datatype docker_step = Build string | RunImage string

definition docker_step_of :: "event \<Rightarrow> docker_step option" where
  "docker_step_of ev =
     (case ev of
        Run argv \<Rightarrow>
          (case build_tag argv of
             Some t \<Rightarrow> Some (Build t)
           | None \<Rightarrow> map_option (\<lambda>r. RunImage (snd r)) (docker_run argv))
      | _ \<Rightarrow> None)"

definition docker_steps :: "event list \<Rightarrow> docker_step list" where
  "docker_steps evs = List.map_filter docker_step_of evs"

text \<open>Every \<open>run\<close> names the image that the latest \<open>build\<close> before it tagged.\<close>

fun runs_latest_build :: "string option \<Rightarrow> docker_step list \<Rightarrow> bool" where
  "runs_latest_build b [] = True"
| "runs_latest_build b (Build t # steps) = runs_latest_build (Some t) steps"
| "runs_latest_build b (RunImage i # steps) =
     ((case b of None \<Rightarrow> False | Some t \<Rightarrow> image_ref i = image_ref t) \<and> runs_latest_build b steps)"

definition is_async :: "event \<Rightarrow> bool" where
  "is_async ev = (case ev of Run argv \<Rightarrow> (case docker_run argv of Some (d, i) \<Rightarrow> d | None \<Rightarrow> False) | _ \<Rightarrow> False)"

fun option_value :: "string list \<Rightarrow> string list \<Rightarrow> string option" where
  "option_value names [] = None"
| "option_value names [a] = None"
| "option_value names (a # b # rest) =
     (if a \<in> set names then Some b else option_value names (b # rest))"

text \<open>The number of threads asked of \<open>fasterq-dump\<close> (\<open>-e\<close>).\<close>

definition threads :: "string list \<Rightarrow> nat option" where
  "threads argv =
     (case argv of
        [] \<Rightarrow> None
      | cmd # args \<Rightarrow>
          if cmd = ''fasterq-dump''
          then (case option_value [''-e'', ''--threads''] args of
                  None \<Rightarrow> None
                | Some n \<Rightarrow> nat_of_string n)
          else None)"

subsection \<open>Expansion of the notebook's variables\<close>

definition is_field :: "string \<Rightarrow> bool" where
  "is_field s \<longleftrightarrow> s \<noteq> [] \<and> list_all (\<lambda>c. c \<noteq> CHR '' '' \<and> c \<noteq> CHR 0x09 \<and> c \<noteq> CHR 0x0A) s"

lemma expand_Cons: "expand e (w # ws) = expand_word e w @ expand e ws"
  by (simp add: expand_def)

lemma expand_word_lit:
  "is_field l \<Longrightarrow> expand_word e [Lit l] = [l]"
  by (simp add: expand_word_def seg_value_def split_fields_single is_field_def)

lemma expand_word_var:
  "e name = Some val \<Longrightarrow> is_field val \<Longrightarrow> expand_word e [Var name] = [val]"
  by (simp add: expand_word_def seg_value_def split_fields_single is_field_def)

lemma expand_word_lit_var:
  "e name = Some val \<Longrightarrow> is_field val \<Longrightarrow>
   list_all (\<lambda>c. c \<noteq> CHR '' '' \<and> c \<noteq> CHR 0x09 \<and> c \<noteq> CHR 0x0A) l \<Longrightarrow>
   expand_word e [Lit l, Var name] = [l @ val]"
  by (simp add: expand_word_def seg_value_def split_fields_single is_field_def)

lemma namespace_simps [simp]:
  "namespace v ''bucket'' = Some (bucket v)"
  "namespace v ''PACKAGE_NAME'' = Some (PACKAGE_NAME v)"
  "namespace v ''sra_prefix'' = Some (sra_prefix v)"
  "namespace v ''sra_output'' = Some (sra_output v)"
  "namespace v ''access_key'' = Some (access_key v)"
  "namespace v ''secret_key'' = Some (secret_key v)"
  "namespace v ''token'' = Some (token v)"
  by (simp_all add: namespace_def)

lemma is_field_literals [simp]:
  "is_field ''SRR000002''" "is_field ''SRR000003''" "is_field ''SRR000004''"
  by (simp_all add: is_field_def)

subsection \<open>What each \<open>!\<close> cell starts\<close>

lemma events_build_simple_server:
  "events_of (cell_build_simple_server x v) s =
     [Run [''docker'', ''build'', ''-t'', ''simple_server'', ''.'']]"
  unfolding cell_build_simple_server_def
  by (rule events_of_bang_simple[OF parse_build_simple_server])
    (simp_all add: expand_lit expand_Nil started_program)

lemma events_build_ncbi:
  "events_of (cell_build_ncbi x v) s =
     [Run [''docker'', ''build'', ''-t'', ''myncbi/sra-tools'', ''-f'', ''Dockerfile.ncbi'', ''.'']]"
  unfolding cell_build_ncbi_def
  by (rule events_of_bang_simple[OF parse_build_ncbi])
    (simp_all add: expand_lit expand_Nil started_program)

lemma events_build_myown:
  "events_of (cell_build_myown x v) s =
     [Run [''docker'', ''build'', ''-t'', ''myownncbi/sra-tools'', ''-f'', ''Dockerfile.myown'', ''.'']]"
  unfolding cell_build_myown_def
  by (rule events_of_bang_simple[OF parse_build_myown])
    (simp_all add: expand_lit expand_Nil started_program)

lemma events_pip_install:
  "events_of (cell_pip_install x v) s = [Run [''pip'', ''install'', ''bioinfokit'']]"
  unfolding cell_pip_install_def
  by (rule events_of_bang_simple[OF parse_pip_install])
    (simp_all add: expand_lit expand_Nil started_program)

definition run_ncbi_argv :: "pyvars \<Rightarrow> string \<Rightarrow> string list" where
  "run_ncbi_argv v package =
     [''docker'', ''run'',
      ''--env'', ''SRA_OUTPUT='' @ sra_output v,
      ''--env'', ''PACKAGE_NAME='' @ package,
      ''--env'', ''PACKAGE_NAME='' @ package,
      ''--env'', ''AWS_ACCESS_KEY_ID='' @ access_key v,
      ''--env'', ''AWS_SECRET_ACCESS_KEY='' @ secret_key v,
      ''--env'', ''AWS_SESSION_TOKEN='' @ token v,
      ''myncbi/sra-tools:latest'']"

definition run_myown_argv :: "pyvars \<Rightarrow> string \<Rightarrow> string list" where
  "run_myown_argv v package =
     [''docker'', ''run'',
      ''--env'', ''SRA_OUTPUT='' @ sra_output v,
      ''--env'', ''PACKAGE_NAME='' @ package,
      ''--env'', ''AWS_ACCESS_KEY_ID='' @ access_key v,
      ''--env'', ''AWS_SECRET_ACCESS_KEY='' @ secret_key v,
      ''--env'', ''AWS_SESSION_TOKEN='' @ token v,
      ''myownncbi/sra-tools:latest'']"

definition fields_ok :: "pyvars \<Rightarrow> bool" where
  "fields_ok v \<longleftrightarrow>
     is_field (sra_output v) \<and> is_field (access_key v) \<and> is_field (secret_key v) \<and> is_field (token v)"

lemma expand_run_ncbi:
  assumes "fields_ok v" and "is_field (PACKAGE_NAME v)"
  shows "expand (namespace v) run_ncbi_words = run_ncbi_argv v (PACKAGE_NAME v)"
  using assms
  by (simp add: run_ncbi_words_def expand_Cons expand_Nil expand_word_lit
      expand_word_lit_var[where e = "namespace v"] fields_ok_def run_ncbi_argv_def is_field_def)

lemma expand_run_myown:
  assumes "fields_ok v" and "is_field (PACKAGE_NAME v)"
  shows "expand (namespace v) run_myown_words = run_myown_argv v (PACKAGE_NAME v)"
  using assms
  by (simp add: run_myown_words_def expand_Cons expand_Nil expand_word_lit
      expand_word_lit_var[where e = "namespace v"] fields_ok_def run_myown_argv_def is_field_def)

lemma fields_ok_package [simp]: "fields_ok (v\<lparr>PACKAGE_NAME := p\<rparr>) = fields_ok v"
  by (simp add: fields_ok_def)

lemma run_argv_package [simp]:
  "run_ncbi_argv (v\<lparr>PACKAGE_NAME := p\<rparr>) q = run_ncbi_argv v q"
  "run_myown_argv (v\<lparr>PACKAGE_NAME := p\<rparr>) q = run_myown_argv v q"
  by (simp_all add: run_ncbi_argv_def run_myown_argv_def)

lemma events_run_ncbi_2:
  assumes "fields_ok v"
  shows "events_of (cell_run_ncbi_2 x v) s = [Run (run_ncbi_argv v ''SRR000002'')]"
  unfolding cell_run_ncbi_2_def Let_def
  by (rule events_of_bang_simple[OF parse_run_ncbi])
    (simp_all add: expand_run_ncbi assms run_ncbi_argv_def started_program)

lemma events_run_ncbi_3:
  assumes "fields_ok v"
  shows "events_of (cell_run_ncbi_3 x v) s = [Run (run_ncbi_argv v ''SRR000003'')]"
  unfolding cell_run_ncbi_3_def Let_def
  by (rule events_of_bang_simple[OF parse_run_ncbi])
    (simp_all add: expand_run_ncbi assms run_ncbi_argv_def started_program)

lemma events_run_myown:
  assumes "fields_ok v"
  shows "events_of (cell_run_myown x v) s = [Run (run_myown_argv v ''SRR000004'')]"
  unfolding cell_run_myown_def Let_def
  by (rule events_of_bang_simple[OF parse_run_myown])
    (simp_all add: expand_run_myown assms run_myown_argv_def started_program)

subsection \<open>The library calls of the Python cells\<close>

definition library_calls :: "string list" where
  "library_calls =
     [''import'', ''boto3.session.Session'', ''session.region_name'',
      ''workshop.create_bucket_name'', ''workshop.create_bucket'', ''open'',
      ''docker.from_env'', ''docker_client.containers.list'', ''docker_client.containers.get'',
      ''simple_server_container.stop'', ''session.get_credentials'',
      ''credentials.get_frozen_credentials'', ''session.client'', ''s3_client.list_objects'',
      ''os.path.exists'', ''os.makedirs'', ''s3_client.download_file'', ''fastq.fastq_reader'']"

definition python_event :: "event \<Rightarrow> bool" where
  "python_event ev =
     (case ev of Call name args r \<Rightarrow> name \<in> set library_calls | Print vs \<Rightarrow> True | Run argv \<Rightarrow> False)"

lemma python_event_simps [simp]:
  "python_event (Print vs)"
  "python_event (Call ''import'' args r)"
  "python_event (Call ''boto3.session.Session'' args r)"
  "python_event (Call ''session.region_name'' args r)"
  "python_event (Call ''workshop.create_bucket_name'' args r)"
  "python_event (Call ''workshop.create_bucket'' args r)"
  "python_event (Call ''open'' args r)"
  "python_event (Call ''docker.from_env'' args r)"
  "python_event (Call ''docker_client.containers.list'' args r)"
  "python_event (Call ''docker_client.containers.get'' args r)"
  "python_event (Call ''simple_server_container.stop'' args r)"
  "python_event (Call ''session.get_credentials'' args r)"
  "python_event (Call ''credentials.get_frozen_credentials'' args r)"
  "python_event (Call ''session.client'' args r)"
  "python_event (Call ''s3_client.list_objects'' args r)"
  "python_event (Call ''os.path.exists'' args r)"
  "python_event (Call ''os.makedirs'' args r)"
  "python_event (Call ''s3_client.download_file'' args r)"
  "python_event (Call ''fastq.fastq_reader'' args r)"
  by (simp_all add: python_event_def library_calls_def)

lemma emits_mono: "emits P m \<Longrightarrow> (\<And>ev. P ev \<Longrightarrow> Q ev) \<Longrightarrow> emits Q m"
  by (auto simp: emits_def list_all_iff)

lemma py_cell_imports: "emits python_event (cell_imports x v)"
  unfolding cell_imports_def
  by (intro emits_bnd emits_each emits_call emits_ret) simp

lemma py_cell_create_bucket: "emits python_event (cell_create_bucket x v)"
  unfolding cell_create_bucket_def
  by (intro emits_bnd emits_call emits_ret emits_emit) simp_all

lemma py_cell_def_writetemplate: "emits python_event (cell_def_writetemplate x v)"
  unfolding cell_def_writetemplate_def
  by (intro emits_bnd emits_call emits_ret emits_emit) simp_all

lemma py_magic: "emits python_event (magic_writetemplate line cell v)"
  by (intro emits_magic) simp

lemma py_cells_writetemplate:
  "emits python_event (cell_Dockerfile x v)" "emits python_event (cell_sratest_sh x v)"
  "emits python_event (cell_Dockerfile_ncbi x v)" "emits python_event (cell_Dockerfile_myown x v)"
  unfolding cell_Dockerfile_def cell_sratest_sh_def cell_Dockerfile_ncbi_def cell_Dockerfile_myown_def
  by (intro emits_bnd py_magic emits_ret)+

lemma py_list_all_running_containers: "emits python_event (list_all_running_containers x)"
  unfolding list_all_running_containers_def
  by (intro emits_bnd emits_call) (auto split: libval.splits)

lemma py_cell_stop_container: "emits python_event (cell_stop_container x v)"
  unfolding cell_stop_container_def
  by (intro emits_bnd emits_call emits_emit py_list_all_running_containers)
    (auto split: list.splits)

lemma py_cell_settings: "emits python_event (cell_settings x v)"
  unfolding cell_settings_def Let_def
  by (intro emits_bnd emits_call) (auto split: libval.splits list.splits)

lemma py_download_one: "emits python_event (download_one x v fn)"
  unfolding download_one_def Let_def
  by (intro emits_bnd emits_call emits_if emits_ret) simp_all

lemma py_cell_download: "emits python_event (cell_download x v)"
  unfolding cell_download_def
  by (intro emits_bnd emits_call) (auto simp: py_download_one split: libval.splits option.splits)

lemma py_fastq_loop: "emits python_event (fastq_loop i records)"
  by (induction records arbitrary: i) (auto simp: Let_def split: list.splits)

lemma py_cell_fastq: "emits python_event (cell_fastq x v)"
  unfolding cell_fastq_def
  by (intro emits_bnd emits_call) (auto simp: py_fastq_loop split: libval.splits option.splits)

lemma py_cell_empty: "emits python_event (cell_empty x v)"
  by (simp add: cell_empty_def)

lemmas python_cells =
  py_cell_imports py_cell_create_bucket py_cell_def_writetemplate py_cells_writetemplate
  py_cell_stop_container py_cell_settings py_cell_download py_cell_fastq py_cell_empty

lemma emits_events: "emits P m \<Longrightarrow> list_all P (events_of m s)"
  by (simp add: emits_def)

subsection \<open>Exceptions are not caught\<close>

fun event_raised :: "event \<Rightarrow> pyexn option" where
  "event_raised (Call name args r) = r"
| "event_raised (Run argv) = None"
| "event_raised (Print vs) = None"

text \<open>
  No event but the last has raised, and when the last has raised an exception, that
  exception is what the action raises.
\<close>

definition propagated :: "event list \<Rightarrow> pyexn option \<Rightarrow> bool" where
  "propagated evs raised \<longleftrightarrow>
     list_all (\<lambda>ev. event_raised ev = None) (butlast evs) \<and>
     (evs = [] \<or> event_raised (last evs) = None \<or> event_raised (last evs) = raised)"

definition uncaught :: "('o, 'a) act \<Rightarrow> bool" where
  "uncaught m \<longleftrightarrow> extends m \<and> (\<forall>s. propagated (events_of m s) (raised_by (snd (m s))))"

lemma propagated_Nil [simp]: "propagated [] r"
  by (simp add: propagated_def)

lemma propagated_snoc [simp]:
  "propagated (ys @ [y]) r \<longleftrightarrow>
     list_all (\<lambda>ev. event_raised ev = None) ys \<and> (event_raised y = None \<or> event_raised y = r)"
  by (simp add: propagated_def)

lemma propagated_quiet: "list_all (\<lambda>ev. event_raised ev = None) evs \<Longrightarrow> propagated evs r"
  by (cases evs rule: rev_cases) auto

lemma propagated_None:
  "propagated evs None \<Longrightarrow> list_all (\<lambda>ev. event_raised ev = None) evs"
  by (cases evs rule: rev_cases) auto

lemma propagated_append:
  assumes "list_all (\<lambda>ev. event_raised ev = None) evs1" and "propagated evs2 r"
  shows "propagated (evs1 @ evs2) r"
proof (cases evs2 rule: rev_cases)
  case Nil
  with assms(1) show ?thesis by (simp add: propagated_quiet)
next
  case (snoc ys y)
  have "propagated ((evs1 @ ys) @ [y]) r"
    using assms snoc by (simp del: append_assoc)
  with snoc show ?thesis by simp
qed

lemma uncaught_ret [intro!, simp]: "uncaught (ret a)"
  by (simp add: uncaught_def)

lemma uncaught_raise [intro!, simp]: "uncaught (raise e)"
  by (simp add: uncaught_def)

lemma uncaught_print [intro!, simp]: "uncaught (emit (Print vs))"
  by (simp add: uncaught_def propagated_def)

lemma uncaught_call [intro!, simp]: "uncaught (call x name args)"
proof -
  have "snd (call x name args s) = fst (lib x name args (nb_world s))" for s
    by (simp add: call_def split: prod.splits)
  then show ?thesis
    by (simp add: uncaught_def propagated_def)
qed

lemma uncaught_bnd [intro!]:
  assumes "uncaught m" and "\<And>a. uncaught (f a)"
  shows "uncaught (bnd m f)"
proof -
  have e: "extends m" "\<And>a. extends (f a)"
    using assms by (simp_all add: uncaught_def)
  have "propagated (events_of (bnd m f) s) (raised_by (snd (bnd m f s)))" for s
  proof (cases "m s")
    case (Pair s' r)
    have pm: "propagated (events_of m s) (raised_by r)"
      using assms(1) Pair unfolding uncaught_def by (metis snd_conv)
    show ?thesis
    proof (cases r)
      case (Inl ex)
      with Pair pm show ?thesis
        by (simp add: events_of_bnd[OF e] bnd_def raised_by_def)
    next
      case (Inr a)
      have "propagated (events_of (f a) s') (raised_by (snd (f a s')))"
        using assms(2) unfolding uncaught_def by blast
      moreover have "list_all (\<lambda>ev. event_raised ev = None) (events_of m s)"
        using pm Inr by (simp add: propagated_None raised_by_def)
      ultimately show ?thesis
        using Pair Inr by (simp add: events_of_bnd[OF e] bnd_def propagated_append)
    qed
  qed
  with e show ?thesis by (auto simp: uncaught_def)
qed

lemma uncaught_each [intro!]:
  assumes "\<And>a. uncaught (f a)"
  shows "uncaught (each f as)"
  by (induction as) (auto intro: assms)

lemma uncaught_if [intro!]: "uncaught m \<Longrightarrow> uncaught n \<Longrightarrow> uncaught (if b then m else n)"
  by simp

lemma uncaught_quiet:
  assumes "extends m" and "\<And>s. list_all (\<lambda>ev. event_raised ev = None) (events_of m s)"
  shows "uncaught m"
  using assms by (simp add: uncaught_def propagated_quiet)

lemma uncaught_bang [intro!, simp]: "uncaught (bang x line v)"
  by (rule uncaught_quiet)
    (auto simp: events_of_def bang_def Let_def list_all_iff split: option.splits)

lemma uncaught_bang_output [intro!, simp]: "uncaught (bang_output x line v)"
  by (rule uncaught_quiet)
    (auto simp: events_of_def bang_output_def Let_def list_all_iff
      split: option.splits command.splits)

lemma uncaught_magic [intro!, simp]: "uncaught (magic_writetemplate line cell v)"
  by (auto simp: uncaught_def propagated_def events_of_def magic_writetemplate_def Let_def
      writetemplate_def raised_by_def split: prod.splits sum.splits)

lemma uncaught_list_all_running_containers: "uncaught (list_all_running_containers x)"
  unfolding list_all_running_containers_def
  by (intro uncaught_bnd uncaught_call) (auto split: libval.splits)

lemma uncaught_download_one: "uncaught (download_one x v fn)"
  unfolding download_one_def Let_def
  by (intro uncaught_bnd uncaught_call uncaught_if uncaught_ret)

lemma uncaught_fastq_loop: "uncaught (fastq_loop i records)"
  by (induction records arbitrary: i) (auto simp: Let_def split: list.splits)

lemma uncaught_cells:
  "uncaught (cell_imports x v)" "uncaught (cell_create_bucket x v)"
  "uncaught (cell_def_writetemplate x v)" "uncaught (cell_Dockerfile x v)"
  "uncaught (cell_build_simple_server x v)" "uncaught (cell_run_simple_server x v)"
  "uncaught (cell_stop_container x v)" "uncaught (cell_settings x v)"
  "uncaught (cell_sratest_sh x v)" "uncaught (cell_Dockerfile_ncbi x v)"
  "uncaught (cell_build_ncbi x v)" "uncaught (cell_run_ncbi_2 x v)"
  "uncaught (cell_run_ncbi_3 x v)" "uncaught (cell_Dockerfile_myown x v)"
  "uncaught (cell_build_myown x v)" "uncaught (cell_run_myown x v)"
  "uncaught (cell_download x v)" "uncaught (cell_pip_install x v)"
  "uncaught (cell_fastq x v)" "uncaught (cell_cleanup x v)" "uncaught (cell_empty x v)"
  unfolding cell_imports_def cell_create_bucket_def cell_def_writetemplate_def cell_Dockerfile_def
    cell_build_simple_server_def cell_run_simple_server_def cell_stop_container_def
    cell_settings_def cell_sratest_sh_def cell_Dockerfile_ncbi_def cell_build_ncbi_def
    cell_run_ncbi_2_def cell_run_ncbi_3_def cell_Dockerfile_myown_def cell_build_myown_def
    cell_run_myown_def cell_download_def cell_pip_install_def cell_fastq_def cell_cleanup_def
    cell_empty_def Let_def
  by (auto intro!: uncaught_list_all_running_containers uncaught_download_one uncaught_fastq_loop
      split: libval.splits list.splits option.splits)

text \<open>The cell that starts the web server: \<open>docker ps\<close> runs only when \<open>sleep\<close> succeeds.\<close>

definition run_simple_server_argv :: "string list" where
  "run_simple_server_argv = [''docker'', ''run'', ''-d'', ''-p'', ''8080:80'', ''simple_server'']"

lemma bang_sleep_ps:
  "bang x '' sleep 3 && docker ps '' v s =
     (let r1 = tool x [''sleep'', ''3''] (nb_world s) in
      if fst r1 \<noteq> 0
      then (s\<lparr>nb_trace := nb_trace s @ [Run [''sleep'', ''3'']], nb_world := snd r1\<rparr>, Inr ())
      else (s\<lparr>nb_trace := nb_trace s @ [Run [''sleep'', ''3''], Run [''docker'', ''ps'']],
              nb_world := snd (tool x [''docker'', ''ps''] (snd r1))\<rparr>, Inr ()))"
  by (simp add: bang_def parse_sleep_ps Let_def init_shell_def exec_simple_def expand_lit expand_Nil
      split: prod.splits)

lemma events_run_simple_server:
  "events_of (cell_run_simple_server x v) s =
     [Run run_simple_server_argv, Run [''sleep'', ''3'']] @
     (if fst (tool x [''sleep'', ''3''] (snd (tool x run_simple_server_argv (nb_world s)))) = 0
      then [Run [''docker'', ''ps'']] else []) @
     [Run [''curl'', ''http://localhost:8080'']]"
proof -
  have a: "expand (namespace v) [[Lit ''docker''], [Lit ''run''], [Lit ''-d''], [Lit ''-p''], [Lit ''8080:80''],
                   [Lit ''simple_server'']] = run_simple_server_argv"
    by (simp add: expand_lit expand_Nil run_simple_server_argv_def)
  have a': "started run_simple_server_argv = [run_simple_server_argv]"
    by (simp add: run_simple_server_argv_def started_program)
  have c': "started [''curl'', ''http://localhost:8080''] = [[''curl'', ''http://localhost:8080'']]"
    by (simp add: started_program)
  have c: "expand (namespace v) [[Lit ''curl''], [Lit ''http://localhost:8080'']] =
      [''curl'', ''http://localhost:8080'']"
    by (simp add: expand_lit expand_Nil)
  show ?thesis
    unfolding cell_run_simple_server_def
    by (simp add: events_of_def bnd_def ret_def bang_sleep_ps Let_def
        bang_output_simple[OF parse_run_simple_server a a'] bang_simple[OF parse_curl c c'])
qed

lemma events_cleanup:
  "\<exists>a1 a2. events_of (cell_cleanup x v) s = [Run (''aws'' # ''s3'' # ''rb'' # a1), Run (''rm'' # a2)]"
proof -
  obtain a1 where a: "expand (namespace v) [[Lit ''aws''], [Lit ''s3''], [Lit ''rb''], [Lit ''s3://'', Var ''bucket''],
                   [Lit ''--force'']] = ''aws'' # ''s3'' # ''rb'' # a1"
    by (simp add: expand_lit)
  obtain a2 where b: "expand (namespace v) [[Lit ''rm''], [Lit ''-rf''], [Var ''sra_prefix'']] = ''rm'' # a2"
    by (simp add: expand_lit)
  show ?thesis
    unfolding cell_cleanup_def
    by (simp add: events_of_def bnd_def ret_def bang_simple[OF parse_s3_rb a] bang_simple[OF parse_rm b]
        started_program)
qed

subsection \<open>Exit statuses\<close>

text \<open>The same programs and libraries, with the exit statuses replaced by \<open>f\<close>.\<close>

definition with_status :: "(string list \<Rightarrow> 'o world \<Rightarrow> int) \<Rightarrow> 'o ext \<Rightarrow> 'o ext" where
  "with_status f x = x\<lparr>tool := \<lambda>argv w. (f argv w, snd (tool x argv w))\<rparr>"

lemma call_with_status [simp]: "call (with_status f x) = call x"
  by (rule ext)+ (simp add: call_def with_status_def)

lemma bang_with_status:
  assumes "parse_command line = Some (Simple ws)"
  shows "bang (with_status f x) line v = bang x line v"
  by (rule ext)
    (simp add: bang_def assms Let_def init_shell_def exec_simple_facts exec_simple_world
      with_status_def)

lemma list_all_running_containers_with_status [simp]:
  "list_all_running_containers (with_status f x) = list_all_running_containers x"
  by (simp add: list_all_running_containers_def cong: libval.case_cong)

lemma download_one_with_status [simp]: "download_one (with_status f x) = download_one x"
  by (rule ext)+ (simp add: download_one_def cong: if_cong)

lemma cells_with_status:
  "cell_imports (with_status f x) = cell_imports x"
  "cell_create_bucket (with_status f x) = cell_create_bucket x"
  "cell_def_writetemplate (with_status f x) = cell_def_writetemplate x"
  "cell_Dockerfile (with_status f x) = cell_Dockerfile x"
  "cell_build_simple_server (with_status f x) = cell_build_simple_server x"
  "cell_stop_container (with_status f x) = cell_stop_container x"
  "cell_settings (with_status f x) = cell_settings x"
  "cell_sratest_sh (with_status f x) = cell_sratest_sh x"
  "cell_Dockerfile_ncbi (with_status f x) = cell_Dockerfile_ncbi x"
  "cell_build_ncbi (with_status f x) = cell_build_ncbi x"
  "cell_run_ncbi_2 (with_status f x) = cell_run_ncbi_2 x"
  "cell_run_ncbi_3 (with_status f x) = cell_run_ncbi_3 x"
  "cell_Dockerfile_myown (with_status f x) = cell_Dockerfile_myown x"
  "cell_build_myown (with_status f x) = cell_build_myown x"
  "cell_run_myown (with_status f x) = cell_run_myown x"
  "cell_download (with_status f x) = cell_download x"
  "cell_pip_install (with_status f x) = cell_pip_install x"
  "cell_fastq (with_status f x) = cell_fastq x"
  "cell_cleanup (with_status f x) = cell_cleanup x"
  "cell_empty (with_status f x) = cell_empty x"
  by (rule ext,
      simp add: cell_imports_def cell_create_bucket_def cell_def_writetemplate_def cell_Dockerfile_def
        cell_build_simple_server_def cell_stop_container_def
        cell_settings_def cell_sratest_sh_def cell_Dockerfile_ncbi_def cell_build_ncbi_def
        cell_run_ncbi_2_def cell_run_ncbi_3_def cell_Dockerfile_myown_def cell_build_myown_def
        cell_run_myown_def cell_download_def cell_pip_install_def cell_fastq_def cell_cleanup_def
        cell_empty_def Let_def simple_lines[THEN bang_with_status]
        cong: if_cong list.case_cong libval.case_cong option.case_cong)+

subsection \<open>The two loops\<close>

definition call_name :: "event \<Rightarrow> string" where
  "call_name ev = (case ev of Call name args r \<Rightarrow> name | Run argv \<Rightarrow> ''!'' | Print vs \<Rightarrow> ''print'')"

lemma call_trace:
  obtains s' r where "call x name args s = (s', r)"
    and "nb_trace s' = nb_trace s @ [Call name args (raised_by r)]"
    and "r = fst (lib x name args (nb_world s))"
  by (cases "lib x name args (nb_world s)") (simp add: call_def)

lemma download_one_calls:
  assumes "fst (lib x ''os.path.exists'' [dirname fn] (nb_world s)) = Inr found"
    and "snd (download_one x v fn s) = Inr ()"
  shows "map call_name (events_of (download_one x v fn) s) =
           (if truthy found then [''os.path.exists'', ''s3_client.download_file'']
            else [''os.path.exists'', ''os.makedirs'', ''s3_client.download_file''])"
proof -
  let ?p = "dirname fn"
  obtain s1 r1 where c1: "call x ''os.path.exists'' [?p] s = (s1, r1)"
    and t1: "nb_trace s1 = nb_trace s @ [Call ''os.path.exists'' [?p] (raised_by r1)]"
    and r1: "r1 = fst (lib x ''os.path.exists'' [?p] (nb_world s))"
    by (rule call_trace)
  have r1': "r1 = Inr found"
    using r1 assms(1) by simp
  show ?thesis
  proof (cases "truthy found")
    case True
    obtain s3 r3 where c3: "call x ''s3_client.download_file'' [bucket v, fn, fn] s1 = (s3, r3)"
      and t3: "nb_trace s3 = nb_trace s1 @ [Call ''s3_client.download_file'' [bucket v, fn, fn] (raised_by r3)]"
      by (rule call_trace)
    have "fst (download_one x v fn s) = s3"
      using True by (simp add: download_one_def Let_def bnd_def c1 r1' c3 ret_def split: sum.splits)
    then have "events_of (download_one x v fn) s =
        [Call ''os.path.exists'' [?p] (raised_by r1),
         Call ''s3_client.download_file'' [bucket v, fn, fn] (raised_by r3)]"
      by (simp add: events_of_def t1 t3)
    with True show ?thesis
      by (simp add: call_name_def)
  next
    case False
    obtain s2 r2 where c2: "call x ''os.makedirs'' [?p] s1 = (s2, r2)"
      and t2: "nb_trace s2 = nb_trace s1 @ [Call ''os.makedirs'' [?p] (raised_by r2)]"
      by (rule call_trace)
    obtain s3 r3 where c3: "call x ''s3_client.download_file'' [bucket v, fn, fn] s2 = (s3, r3)"
      and t3: "nb_trace s3 = nb_trace s2 @ [Call ''s3_client.download_file'' [bucket v, fn, fn] (raised_by r3)]"
      by (rule call_trace)
    have d: "download_one x v fn s =
        (case r2 of
           Inl e \<Rightarrow> (s2, Inl e)
         | Inr a \<Rightarrow> (case r3 of Inl e \<Rightarrow> (s3, Inl e) | Inr b \<Rightarrow> (s3, Inr ())))"
      using False by (simp add: download_one_def Let_def bnd_def c1 r1' c2 c3 ret_def split: sum.splits)
    from assms(2) d obtain a2 where "r2 = Inr a2"
      by (cases r2) simp_all
    with d have "fst (download_one x v fn s) = s3"
      by (simp split: sum.splits)
    then have "events_of (download_one x v fn) s =
        [Call ''os.path.exists'' [?p] (raised_by r1),
         Call ''os.makedirs'' [?p] (raised_by r2),
         Call ''s3_client.download_file'' [bucket v, fn, fn] (raised_by r3)]"
      by (simp add: events_of_def t1 t2 t3)
    with False show ?thesis
      by (simp add: call_name_def)
  qed
qed

definition printed_record :: "string list \<Rightarrow> event" where
  "printed_record r =
     Print [PStr (r ! 1), PStr (r ! 3), PInt (int (count_list (r ! 1) CHR ''A'')),
            PInt (int (length (r ! 1)))]"

lemma fastq_loop_prints:
  assumes "list_all (\<lambda>r. length r = 4) records"
  shows "fastq_loop i records s =
           (s\<lparr>nb_trace := nb_trace s @ map printed_record (take (10 - i) records)\<rparr>,
            Inr (i + length records))"
  using assms
proof (induction records arbitrary: i s)
  case Nil
  show ?case by (simp add: ret_def)
next
  case (Cons r rs)
  from Cons.prems obtain h1 sq h2 q where r: "r = [h1, sq, h2, q]"
    by (cases r; simp; cases "tl r"; simp; cases "tl (tl r)"; simp; cases "tl (tl (tl r))"; simp)
  have rs: "list_all (\<lambda>r. length r = 4) rs"
    using Cons.prems by simp
  show ?case
  proof (cases "i < 10")
    case True
    then have "10 - i = Suc (10 - Suc i)"
      by simp
    then have t: "map printed_record (take (10 - i) (r # rs)) =
        printed_record r # map printed_record (take (10 - Suc i) rs)"
      by (simp del: diff_Suc_Suc)
    have "fastq_loop i (r # rs) s =
        fastq_loop (Suc i) rs (s\<lparr>nb_trace := nb_trace s @ [printed_record r]\<rparr>)"
      using True r by (simp add: Let_def bnd_def emit_def printed_record_def)
    also have "\<dots> =
        (s\<lparr>nb_trace := nb_trace s @ printed_record r # map printed_record (take (10 - Suc i) rs)\<rparr>,
         Inr (Suc i + length rs))"
      by (subst Cons.IH[OF rs]) simp
    finally show ?thesis
      by (simp only: t) simp
  next
    case False
    then have "fastq_loop i (r # rs) s = fastq_loop (Suc i) rs s"
      using r by (simp add: Let_def bnd_def ret_def)
    with False show ?thesis
      by (simp add: Cons.IH[OF rs])
  qed
qed

lemma library_calls_s3: "list_all (\<lambda>name. notebook_s3 (Call name args r)) library_calls"
  by (simp add: library_calls_def notebook_s3_def s3_operation_def creates_bucket_def)

lemma python_event_s3: "python_event ev \<Longrightarrow> notebook_s3 ev"
proof (cases ev)
  case (Call name args r)
  assume "python_event ev"
  with Call have "name \<in> set library_calls"
    by (simp add: python_event_def)
  with library_calls_s3[of args r] Call show ?thesis
    by (simp add: list_all_iff)
next
  case (Run argv)
  assume "python_event ev"
  with Run show ?thesis by (simp add: python_event_def)
next
  case (Print vs)
  then show ?thesis by (simp add: notebook_s3_simps)
qed

lemma python_event_not_run:
  "python_event ev \<Longrightarrow> docker_step_of ev = None \<and> \<not> is_async ev"
  by (cases ev) (simp_all add: python_event_def docker_step_of_def is_async_def)

lemma python_cells_s3: "emits python_event m \<Longrightarrow> list_all notebook_s3 (events_of m s)"
  using emits_events[OF emits_mono[of python_event m notebook_s3]] python_event_s3 by blast

lemma python_cells_docker:
  assumes "emits python_event m"
  shows "docker_steps (events_of m s) = []" and "filter is_async (events_of m s) = []"
proof -
  have "list_all python_event (events_of m s)"
    using assms by (rule emits_events)
  then have "list_all (\<lambda>ev. docker_step_of ev = None \<and> \<not> is_async ev) (events_of m s)"
    using python_event_not_run by (auto simp: list_all_iff)
  then show "docker_steps (events_of m s) = []" and "filter is_async (events_of m s) = []"
    by (auto simp: docker_steps_def List.map_filter_def list_all_iff filter_empty_conv)
qed

lemma demo_cleanup:
  "events_of (cell_cleanup (demo_ext False 0) demo_vars) demo_state =
     [Run [''aws'', ''s3'', ''rb'', ''s3://sagemaker-container-ws-1'', ''--force''],
      Run [''rm'', ''-rf'', ''data/sra-toolkit/fasterq'']]"
  by code_simp

lemma demo_create_bucket:
  "events_of (cell_create_bucket (demo_ext False 0) demo_vars) demo_state =
     [Call ''boto3.session.Session'' [] None,
      Call ''session.region_name'' [] None,
      Call ''workshop.create_bucket_name'' [''sagemaker-container-ws-''] None,
      Call ''workshop.create_bucket''
        [''None'', ''session'', ''sagemaker-container-ws-1'', ''False''] None,
      Print [PStr ''sagemaker-container-ws-1'']]"
  by code_simp

lemma demo_download_found:
  "events_of (cell_download (demo_ext True 0) demo_vars) demo_state =
     [Call ''session.client'' [''s3''] None,
      Call ''s3_client.list_objects'' [''sagemaker-container-ws-1'', ''data/sra-toolkit/fasterq''] None,
      Call ''os.path.exists'' [''data/sra-toolkit/fasterq/SRR000004''] None,
      Call ''s3_client.download_file''
        [''sagemaker-container-ws-1'', ''data/sra-toolkit/fasterq/SRR000004/SRR000004.fastq'',
         ''data/sra-toolkit/fasterq/SRR000004/SRR000004.fastq''] None]"
  by code_simp



lemma fields_ok_demo [simp]: "fields_ok demo_vars"
  by (simp add: fields_ok_def demo_vars_def is_field_def)

lemma demo_run_simple_server:
  "events_of (cell_run_simple_server (demo_ext True st) demo_vars) demo_state =
     [Run run_simple_server_argv, Run [''sleep'', ''3'']] @
     (if st = 0 then [Run [''docker'', ''ps'']] else []) @
     [Run [''curl'', ''http://localhost:8080'']]"
  by (simp add: events_run_simple_server demo_ext_def demo_tool_def)

subsection \<open>Docker images\<close>

lemma docker_steps_cells:
  assumes "fields_ok v"
  shows "map (\<lambda>c. docker_steps (events_of (c v) s)) (notebook x) =
    [[], [], [], [], [Build ''simple_server''], [RunImage ''simple_server''], [], [], [], [],
     [Build ''myncbi/sra-tools''], [RunImage ''myncbi/sra-tools:latest''],
     [RunImage ''myncbi/sra-tools:latest''], [], [Build ''myownncbi/sra-tools''],
     [RunImage ''myownncbi/sra-tools:latest''], [], [], [], [], []]"
proof -
  have builds:
    "docker_steps (events_of (cell_build_simple_server x v) s) = [Build ''simple_server'']"
    "docker_steps (events_of (cell_build_ncbi x v) s) = [Build ''myncbi/sra-tools'']"
    "docker_steps (events_of (cell_build_myown x v) s) = [Build ''myownncbi/sra-tools'']"
    by (simp_all add: events_build_simple_server events_build_ncbi events_build_myown
        docker_steps_def List.map_filter_def docker_step_of_def build_tag_def)
  have runs:
    "docker_steps (events_of (cell_run_ncbi_2 x v) s) = [RunImage ''myncbi/sra-tools:latest'']"
    "docker_steps (events_of (cell_run_ncbi_3 x v) s) = [RunImage ''myncbi/sra-tools:latest'']"
    "docker_steps (events_of (cell_run_myown x v) s) = [RunImage ''myownncbi/sra-tools:latest'']"
    using assms
    by (simp_all add: events_run_ncbi_2 events_run_ncbi_3 events_run_myown
        docker_steps_def List.map_filter_def docker_step_of_def build_tag_def docker_run_def
        run_ncbi_argv_def run_myown_argv_def)
  have server:
    "docker_steps (events_of (cell_run_simple_server x v) s) = [RunImage ''simple_server'']"
    by (simp add: events_run_simple_server run_simple_server_argv_def
        docker_steps_def List.map_filter_def docker_step_of_def build_tag_def docker_run_def)
  have others:
    "docker_steps (events_of (cell_pip_install x v) s) = []"
    "docker_steps (events_of (cell_cleanup x v) s) = []"
    using events_cleanup[of x v s]
    by (auto simp: events_pip_install docker_steps_def List.map_filter_def docker_step_of_def
        build_tag_def docker_run_def)
  show ?thesis
    by (simp add: notebook_def builds runs server others python_cells[THEN python_cells_docker(1)])
qed



subsection \<open>Detached containers and threads\<close>

lemma async_cells:
  assumes "fields_ok v"
  shows "map (\<lambda>c. filter is_async (events_of (c v) s)) (notebook x) =
           replicate 5 [] @ [[Run run_simple_server_argv]] @ replicate 15 []"
proof -
  have quiet:
    "filter is_async (events_of (cell_build_simple_server x v) s) = []"
    "filter is_async (events_of (cell_build_ncbi x v) s) = []"
    "filter is_async (events_of (cell_build_myown x v) s) = []"
    "filter is_async (events_of (cell_pip_install x v) s) = []"
    "filter is_async (events_of (cell_cleanup x v) s) = []"
    using events_cleanup[of x v s]
    by (auto simp: events_build_simple_server events_build_ncbi events_build_myown
        events_pip_install is_async_def docker_run_def)
  have runs:
    "filter is_async (events_of (cell_run_ncbi_2 x v) s) = []"
    "filter is_async (events_of (cell_run_ncbi_3 x v) s) = []"
    "filter is_async (events_of (cell_run_myown x v) s) = []"
    using assms
    by (simp_all add: events_run_ncbi_2 events_run_ncbi_3 events_run_myown
        is_async_def docker_run_def run_ncbi_argv_def run_myown_argv_def)
  have server:
    "filter is_async (events_of (cell_run_simple_server x v) s) = [Run run_simple_server_argv]"
    by (simp add: events_run_simple_server is_async_def docker_run_def run_simple_server_argv_def)
  show ?thesis
    by (simp add: notebook_def quiet runs server python_cells[THEN python_cells_docker(2)]
        numeral_eq_Suc)
qed

lemma sratest_threads:
  assumes "e ''PACKAGE_NAME'' = Some p" and "is_field p" and "take 1 p \<noteq> ''-''"
  shows "map threads [prefetch_argv e, fasterq_argv e, sync_argv e] = [None, Some 8, None]"
proof -
  have "fasterq_argv e = [''fasterq-dump'', p, ''-e'', ''8'']"
    using assms
    by (simp add: fasterq_argv_def expand_Cons expand_Nil expand_word_lit expand_word_var is_field_def)
  moreover have "nat_of_string ''8'' = Some 8"
    by (simp add: nat_of_string_def is_digit_def digit_val_def)
  moreover have "p \<noteq> ''-e''" "p \<noteq> ''--threads''"
    using assms(3) by auto
  ultimately show ?thesis
    by (simp add: threads_def prefetch_argv_def sync_argv_def expand_lit)
qed




subsection \<open>Failures\<close>



subsection \<open>Steps\<close>


lemma single_program_cells:
  "\<exists>argv. events_of (cell_build_simple_server x v) s = [Run argv]"
  "\<exists>argv. events_of (cell_build_ncbi x v) s = [Run argv]"
  "\<exists>argv. events_of (cell_build_myown x v) s = [Run argv]"
  "\<exists>argv. events_of (cell_pip_install x v) s = [Run argv]"
  "\<exists>argv. events_of (cell_run_ncbi_2 x v) s = [Run argv]"
  "\<exists>argv. events_of (cell_run_ncbi_3 x v) s = [Run argv]"
  "\<exists>argv. events_of (cell_run_myown x v) s = [Run argv]"
proof -
  show "\<exists>argv. events_of (cell_build_simple_server x v) s = [Run argv]"
    "\<exists>argv. events_of (cell_build_ncbi x v) s = [Run argv]"
    "\<exists>argv. events_of (cell_build_myown x v) s = [Run argv]"
    "\<exists>argv. events_of (cell_pip_install x v) s = [Run argv]"
    by (simp_all add: events_build_simple_server events_build_ncbi events_build_myown
        events_pip_install)
  have ncbi: "\<exists>argv. events_of (bnd (bang x run_ncbi_line v') (\<lambda>_. ret v')) s = [Run argv]" for v'
    using events_of_bang_simple[OF parse_run_ncbi, of v' "expand (namespace v') run_ncbi_words" x v' s]
    by (simp add: run_ncbi_words_def expand_lit started_program)
  have myown: "\<exists>argv. events_of (bnd (bang x run_myown_line v') (\<lambda>_. ret v')) s = [Run argv]" for v'
    using events_of_bang_simple[OF parse_run_myown, of v' "expand (namespace v') run_myown_words" x v' s]
    by (simp add: run_myown_words_def expand_lit started_program)
  show "\<exists>argv. events_of (cell_run_ncbi_2 x v) s = [Run argv]"
    "\<exists>argv. events_of (cell_run_ncbi_3 x v) s = [Run argv]"
    "\<exists>argv. events_of (cell_run_myown x v) s = [Run argv]"
    unfolding cell_run_ncbi_2_def cell_run_ncbi_3_def cell_run_myown_def Let_def
    using ncbi myown by blast+
qed



end
